theory Spec2Isabelle
  imports Complex_Main "HOL-Library.Word" "HOL-Library.Monad_Syntax" "HOL-Library.Multiset"
begin

unbundle bit_operations_syntax

section \<open>QTPFS path search: a shallow embedding\<close>

text \<open>
  The development follows \<^verbatim>\<open>rts/Sim/Path/QTPFS/PathThreads.h\<close> and
  \<^verbatim>\<open>rts/Sim/Path/QTPFS/PathSearch.cpp\<close>.

  Conventions of the embedding.
  \<^item> A pointer or reference into \<^verbatim>\<open>denseData\<close> (\<^verbatim>\<open>SearchNode*\<close>,
    \<^verbatim>\<open>T&\<close>) is the slot number it points at; \<^verbatim>\<open>nullptr\<close> is \<open>None\<close>.
    Pointer equality is equality of slots. (The backing store is reserved in
    \<^verbatim>\<open>Init\<close>; that appending a record never moves the others is taken for
    granted.)
  \<^item> An operation whose C++ behaviour is undefined (an index outside a vector, a
    dereference of \<^verbatim>\<open>nullptr\<close>) returns \<open>None\<close>; every other result is
    \<open>Some\<close>.
  \<^item> \<^verbatim>\<open>float\<close> values are rationals: costs and coordinates are compared and
    added exactly, without rounding, infinities or NaN. The Euclidean
    \<^verbatim>\<open>float3::distance\<close> is a parameter of the model.
\<close>

subsection \<open>SparseData (PathThreads.h)\<close>

text \<open>
  \<^verbatim>\<open>std::vector<int> sparseIndex\<close> holds slot numbers, which are never negative;
  they are natural numbers here.
\<close>

record 'a SparseData =
  sparseIndex :: "nat list"
  denseData :: "'a list"

text \<open>\<^verbatim>\<open>Reset\<close>: \<open>dflt\<close> is the default-constructed \<^verbatim>\<open>T()\<close>.\<close>

definition Reset :: "'a \<Rightarrow> 'a SparseData \<Rightarrow> nat \<Rightarrow> 'a SparseData" where
  "Reset dflt sp sparseSize =
     sp\<lparr>sparseIndex := replicate sparseSize 0, denseData := [dflt]\<rparr>"

text \<open>
  \<^verbatim>\<open>InsertAtIndex\<close>. The assertion \<^verbatim>\<open>index < sparseIndex.size()\<close> compares
  after conversion to \<^verbatim>\<open>size_t\<close>, so a negative index is out of range as well.
\<close>

definition InsertAtIndex :: "'a SparseData \<Rightarrow> 'a \<Rightarrow> int \<Rightarrow> 'a SparseData option" where
  "InsertAtIndex sp data index =
     (if index < 0 \<or> int (length (sparseIndex sp)) \<le> index then None
      else if sparseIndex sp ! nat index = 0 then
        (let dd = denseData sp @ [data]
         in Some (sp\<lparr>denseData := dd,
                     sparseIndex := (sparseIndex sp)[nat index := length dd - 1]\<rparr>))
      else if sparseIndex sp ! nat index < length (denseData sp) then
        Some (sp\<lparr>denseData := (denseData sp)[sparseIndex sp ! nat index := data]\<rparr>)
      else None)"

text \<open>\<^verbatim>\<open>operator[]\<close>: the slot of \<^verbatim>\<open>denseData[sparseIndex[i]]\<close>.\<close>

definition slotOf :: "'a SparseData \<Rightarrow> int \<Rightarrow> nat option" where
  "slotOf sp i =
     (if i < 0 \<or> int (length (sparseIndex sp)) \<le> i then None
      else if sparseIndex sp ! nat i < length (denseData sp)
        then Some (sparseIndex sp ! nat i) else None)"

definition isSet :: "'a SparseData \<Rightarrow> int \<Rightarrow> bool option" where
  "isSet sp i =
     (if i < 0 \<or> int (length (sparseIndex sp)) \<le> i then None
      else Some (sparseIndex sp ! nat i \<noteq> 0))"

text \<open>
  \<^verbatim>\<open>InsertINode\<close> and \<^verbatim>\<open>InsertINodeIfNotPresent\<close> return a reference and
  change the registry: the model returns the slot and the new registry.
  \<open>mk\<close> is the constructor \<^verbatim>\<open>T(nodeId)\<close>.
\<close>

definition InsertINode ::
  "(int \<Rightarrow> 'a) \<Rightarrow> 'a SparseData \<Rightarrow> int \<Rightarrow> (nat \<times> 'a SparseData) option" where
  "InsertINode mk sp nodeId =
     (if nodeId < 0 then (if denseData sp = [] then None else Some (0, sp))
      else do {
        sp' \<leftarrow> InsertAtIndex sp (mk nodeId) nodeId;
        slot \<leftarrow> slotOf sp' nodeId;
        Some (slot, sp')
      })"

definition InsertINodeIfNotPresent ::
  "(int \<Rightarrow> 'a) \<Rightarrow> 'a SparseData \<Rightarrow> int \<Rightarrow> (nat \<times> 'a SparseData) option" where
  "InsertINodeIfNotPresent mk sp nodeId =
     (if nodeId < 0 then (if denseData sp = [] then None else Some (0, sp))
      else if int (length (sparseIndex sp)) \<le> nodeId then None
      else if sparseIndex sp ! nat nodeId = 0 then do {
        sp' \<leftarrow> InsertAtIndex sp (mk nodeId) nodeId;
        slot \<leftarrow> slotOf sp' nodeId;
        Some (slot, sp')
      }
      else do {
        slot \<leftarrow> slotOf sp nodeId;
        Some (slot, sp)
      })"

text \<open>A run of insert-or-fetch calls, one per identifier, results discarded.\<close>

fun touchAll :: "(int \<Rightarrow> 'a) \<Rightarrow> 'a SparseData \<Rightarrow> int list \<Rightarrow> 'a SparseData option" where
  "touchAll mk sp [] = Some sp"
| "touchAll mk sp (i # is) =
     (case InsertINodeIfNotPresent mk sp i of
        None \<Rightarrow> None
      | Some (slot, sp') \<Rightarrow> touchAll mk sp' is)"


text \<open>
  The registry is well formed when the dummy record exists and every entry of the
  index table is a slot of the backing store.
\<close>

definition wfS :: "'a SparseData \<Rightarrow> bool" where
  "wfS sp = (denseData sp \<noteq> [] \<and> list_all (\<lambda>s. s < length (denseData sp)) (sparseIndex sp))"

subsection \<open>Geometry and the search record\<close>

type_synonym float2 = "rat \<times> rat"
type_synonym float3 = "rat \<times> rat \<times> rat"

text \<open>The conversion \<^verbatim>\<open>{p.x, 0.0f, p.y}\<close> of a crossing point to a \<^verbatim>\<open>float3\<close>.\<close>

definition xz3 :: "float2 \<Rightarrow> float3" where
  "xz3 p = (fst p, 0, snd p)"

text \<open>
  Modelled from the spec: \<^verbatim>\<open>SearchNode\<close> (Node.h) is not among the sources. The
  spec's Search Record holds the cost-so-far, the heuristic cost, a predecessor
  reference, the chosen crossing point and the priority under which the node was
  last pushed; the priority is the sum g+h that candidate selection minimises.
  The cost a freshly constructed record starts with is the parameter \<open>initCost\<close>.
\<close>

record SearchNode =
  index :: int
  prevNode :: "nat option"
  fCost :: rat
  gCost :: rat
  hCost :: rat
  selectedNetpoint :: float2

definition newSearchNode :: "rat \<Rightarrow> int \<Rightarrow> SearchNode" where
  "newSearchNode initCost nodeId =
     \<lparr>index = nodeId, prevNode = None, fCost = initCost, gCost = initCost,
      hCost = initCost, selectedNetpoint = (0, 0)\<rparr>"

definition SetPrevNode :: "nat option \<Rightarrow> SearchNode \<Rightarrow> SearchNode" where
  "SetPrevNode p n = n\<lparr>prevNode := p\<rparr>"

definition SetPathCosts :: "rat \<Rightarrow> rat \<Rightarrow> SearchNode \<Rightarrow> SearchNode" where
  "SetPathCosts g h n = n\<lparr>fCost := g + h, gCost := g, hCost := h\<rparr>"

definition SetNeighborEdgeTransitionPoint :: "float2 \<Rightarrow> SearchNode \<Rightarrow> SearchNode" where
  "SetNeighborEdgeTransitionPoint p n = n\<lparr>selectedNetpoint := p\<rparr>"

definition GetHeapPriority :: "SearchNode \<Rightarrow> rat" where
  "GetHeapPriority n = fCost n"

subsection \<open>The spatial index, as the search reads it\<close>

text \<open>
  \<^verbatim>\<open>INode\<close> and \<^verbatim>\<open>NodeLayer\<close> belong to the spatial index, which is not among
  the sources. A node is the record of what the search reads from it; a layer is
  the record of its lookups, together with the per-layer values the search fetches
  from other subsystems (the movement class's footprint \<^verbatim>\<open>md->xsize\<close>, its
  straight-line probe \<^verbatim>\<open>DoRawSearch\<close>, and \<^verbatim>\<open>maxRelSpeedMod\<close>).
\<close>

record INode =
  GetIndex :: int
  GetNodeNumber :: "32 word"
  AllSquaresImpassable :: bool
  GetMoveCost :: rat
  GetNeighbors :: "int list"
  GetNeighborEdgeTransitionPoint :: "nat \<Rightarrow> float2"
  xmin :: "32 word"
  zmin :: "32 word"
  xmax :: "32 word"
  zmax :: "32 word"
  xmid :: "32 word"
  zmid :: "32 word"
  xsize :: "32 word"

record NodeLayer =
  GetNode :: "nat \<Rightarrow> nat \<Rightarrow> INode"
  GetPoolNode :: "int \<Rightarrow> INode"
  GetNearestNodeInArea :: "int \<times> int \<times> int \<times> int \<Rightarrow> int \<times> int \<Rightarrow> INode option"
  GetMaxNodesAlloced :: nat
  GetNumLeafNodes :: nat
  GetNodelayer :: "32 word"
  GetRootMask :: "32 word"
  maxRelSpeedMod :: rat
  footprint :: int
  DoRawSearch :: "float3 \<Rightarrow> float3 \<Rightarrow> bool"

datatype SearchType = PATH_SEARCH_ASTAR | PATH_SEARCH_DIJKSTRA

subsection \<open>PathSearch and its worker context\<close>

text \<open>
  The fields of \<^verbatim>\<open>PathSearch\<close> the code below reads or writes, followed by the
  two parts of the attached \<^verbatim>\<open>SearchThreadData\<close> it uses: the registry
  \<^verbatim>\<open>allSearchedNodes\<close> and the open list. An open-list entry is a
  \<^verbatim>\<open>SearchQueueNode\<close>, the pair (nodeIndex, heapPriority). The scratch arrays
  \<^verbatim>\<open>gDists\<close> and \<^verbatim>\<open>hDists\<close> are written and never read back, so they are local
  values.
\<close>

record PathSearch =
  srcPoint :: float3
  tgtPoint :: float3
  rawPathCheck :: bool
  searchType :: SearchType
  badGoal :: bool
  haveFullPath :: bool
  havePartPath :: bool
  hCostMult :: rat
  srcSearchNode :: nat
  tgtSearchNode :: nat
  curSearchNode :: "nat option"
  nextSearchNode :: "nat option"
  minSearchNode :: nat
  netPoints :: "float2 list"
  gCosts :: "rat list"
  hCosts :: "rat list"
  allSearchedNodes :: "SearchNode SparseData"
  openNodes :: "(int \<times> rat) list"

text \<open>
  Modelled from the spec: \<^verbatim>\<open>IPath\<close> (Path.h) is not among the sources. The
  spec's Route Output is an ordered sequence of points whose first and last are
  the literal source and target, a bounding box, and the two outcome flags. Its
  methods, defined below, are the setters of these parts; \<^verbatim>\<open>AllocPoints(n)\<close> gives
  the route \<open>n\<close> fresh points, and writing a point the route does not have is
  undefined.
\<close>

record IPath =
  pathID :: nat
  points :: "float3 list"
  boundingBoxMins :: float3
  boundingBoxMaxs :: float3
  hasFullPath :: bool
  hasPartialPath :: bool

text \<open>
  The compile-time constants of \<^verbatim>\<open>PathDefines.h\<close> and
  \<^verbatim>\<open>GlobalConstants.h\<close>, the map dimensions, and the library functions the
  search calls (\<^verbatim>\<open>float3::distance\<close>, \<^verbatim>\<open>IPath::SetBoundingBox\<close> and the
  default-constructed \<^verbatim>\<open>SearchNode()\<close>) are parameters. So is the
  floating-point geometry of one pass of the loop of \<^verbatim>\<open>SmoothPathIter\<close>:
  \<open>smoothTriplet cfg nn0 nn1 p0 p1 p2\<close> is the point written to the middle waypoint
  and whether it counts as moved (\<^verbatim>\<open>nm\<close> is incremented); where the code goes on
  without writing, it is the middle waypoint itself and \<open>False\<close>. It is \<open>None\<close>
  where an instance of the parameters does not give the geometry.
  \<^verbatim>\<open>QTPFS_SUPPORT_PARTIAL_SEARCHES\<close> and \<^verbatim>\<open>QTPFS_SMOOTH_PATHS\<close> are taken as
  defined, as the spec describes both partial-path tracking and smoothing, and
  \<^verbatim>\<open>QTPFS_TRACE_PATH_SEARCHES\<close> as undefined. Neighbor expansion embeds the
  multi-candidate branch (\<^verbatim>\<open>QTPFS_MAX_NETPOINTS_PER_NODE_EDGE\<close> other than 1).
\<close>

record Config =
  QTPFS_MAX_NETPOINTS_PER_NODE_EDGE :: nat
  QTPFS_CLOSED_NODE_COST :: rat
  QTPFS_SHARE_PATH_MIN_SIZE :: "32 word"
  QTPFS_SHARE_PATH_MAX_SIZE :: "32 word"
  BAD_HASH :: "64 word"
  SQUARE_SIZE :: nat
  mapx :: "32 word"
  mapy :: "32 word"
  initCost :: rat
  distance :: "float3 \<Rightarrow> float3 \<Rightarrow> rat"
  boundingBox :: "float3 list \<Rightarrow> float3 \<times> float3"
  dummyNode :: SearchNode
  QTPFS_MAX_SMOOTHING_ITERATIONS :: nat
  smoothTriplet :: "INode \<Rightarrow> INode \<Rightarrow> float3 \<Rightarrow> float3 \<Rightarrow> float3 \<Rightarrow> (float3 \<times> bool) option"

definition NumPoints :: "'a IPath_scheme \<Rightarrow> nat" where
  "NumPoints p = length (points p)"

definition AllocPoints :: "nat \<Rightarrow> 'a IPath_scheme \<Rightarrow> 'a IPath_scheme" where
  "AllocPoints n p = p\<lparr>points := replicate n (0, 0, 0)\<rparr>"

definition CopyPoints :: "'b IPath_scheme \<Rightarrow> 'a IPath_scheme \<Rightarrow> 'a IPath_scheme" where
  "CopyPoints src p = p\<lparr>points := points src\<rparr>"

definition SetPoint :: "nat \<Rightarrow> float3 \<Rightarrow> 'a IPath_scheme \<Rightarrow> 'a IPath_scheme option" where
  "SetPoint i v p =
     (if i < length (points p) then Some (p\<lparr>points := (points p)[i := v]\<rparr>) else None)"

definition SetSourcePoint :: "float3 \<Rightarrow> 'a IPath_scheme \<Rightarrow> 'a IPath_scheme option" where
  "SetSourcePoint v p = SetPoint 0 v p"

definition SetTargetPoint :: "float3 \<Rightarrow> 'a IPath_scheme \<Rightarrow> 'a IPath_scheme option" where
  "SetTargetPoint v p =
     (if points p = [] then None else SetPoint (length (points p) - 1) v p)"

definition SetBoundingBox :: "Config \<Rightarrow> 'a IPath_scheme \<Rightarrow> 'a IPath_scheme" where
  "SetBoundingBox cfg p =
     p\<lparr>boundingBoxMins := fst (boundingBox cfg (points p)),
       boundingBoxMaxs := snd (boundingBox cfg (points p))\<rparr>"

definition SetHasFullPath :: "bool \<Rightarrow> 'a IPath_scheme \<Rightarrow> 'a IPath_scheme" where
  "SetHasFullPath b p = p\<lparr>hasFullPath := b\<rparr>"

definition SetHasPartialPath :: "bool \<Rightarrow> 'a IPath_scheme \<Rightarrow> 'a IPath_scheme" where
  "SetHasPartialPath b p = p\<lparr>hasPartialPath := b\<rparr>"


subsection \<open>The open list and the registry, as the search uses them\<close>

text \<open>
  \<^verbatim>\<open>SearchPriorityQueue\<close> is a \<^verbatim>\<open>std::priority_queue\<close> over a \<^verbatim>\<open>std::vector\<close>
  with \<^verbatim>\<open>std::greater\<close>: the open list is that vector, a binary heap whose front
  is an entry of least \<^verbatim>\<open>heapPriority\<close>. The C++ standard leaves open which of
  several entries of equal priority is on top; the heap functions below are those of
  the GNU C++ library (\<^verbatim>\<open>__push_heap\<close> and \<^verbatim>\<open>__adjust_heap\<close> of
  \<^verbatim>\<open>bits/stl_heap.h\<close>), so that ties come out in the order that library gives
  them. \<open>heapComp\<close> is \<^verbatim>\<open>std::greater<SearchQueueNode>\<close>, which compares
  priorities only. Index arithmetic is on natural numbers: the one place where the
  library's signed \<^verbatim>\<open>(holeIndex - 1) / 2\<close> is evaluated at 0 gives 0 in both.
\<close>

definition heapComp :: "int \<times> rat \<Rightarrow> int \<times> rat \<Rightarrow> bool" where
  "heapComp a b = (snd a > snd b)"

function gnu_push_heap ::
  "(int \<times> rat) list \<Rightarrow> nat \<Rightarrow> nat \<Rightarrow> int \<times> rat \<Rightarrow> (int \<times> rat) list" where
  "gnu_push_heap a holeIndex topIndex v =
     (let parent = (holeIndex - 1) div 2
      in if holeIndex > topIndex \<and> heapComp (a ! parent) v
         then gnu_push_heap (a[holeIndex := a ! parent]) parent topIndex v
         else a[holeIndex := v])"
  by pat_completeness auto
termination
  by (relation "measure (\<lambda>(a, holeIndex, topIndex, v). holeIndex)") auto

declare gnu_push_heap.simps [simp del]

text \<open>
  The first loop of \<^verbatim>\<open>__adjust_heap\<close>, in which \<^verbatim>\<open>holeIndex\<close> and
  \<^verbatim>\<open>secondChild\<close> are equal at every test of the loop condition.
\<close>

function gnu_adjust_down ::
  "(int \<times> rat) list \<Rightarrow> nat \<Rightarrow> nat \<Rightarrow> (int \<times> rat) list \<times> nat" where
  "gnu_adjust_down a holeIndex len =
     (if holeIndex < (len - 1) div 2 then
        (let secondChild = 2 * (holeIndex + 1);
             secondChild' = (if heapComp (a ! secondChild) (a ! (secondChild - 1))
                             then secondChild - 1 else secondChild)
         in gnu_adjust_down (a[holeIndex := a ! secondChild']) secondChild' len)
      else (a, holeIndex))"
  by pat_completeness auto
termination
  by (relation "measure (\<lambda>(a, holeIndex, len). len - holeIndex)") auto

declare gnu_adjust_down.simps [simp del]

definition gnu_adjust_heap ::
  "(int \<times> rat) list \<Rightarrow> nat \<Rightarrow> nat \<Rightarrow> int \<times> rat \<Rightarrow> (int \<times> rat) list" where
  "gnu_adjust_heap a holeIndex len v =
     (let (a1, h1) = gnu_adjust_down a holeIndex len;
          (a2, h2) = (if even len \<and> h1 = (len - 2) div 2
                      then (a1[h1 := a1 ! (2 * (h1 + 1) - 1)], 2 * (h1 + 1) - 1)
                      else (a1, h1))
      in gnu_push_heap a2 h2 holeIndex v)"

text \<open>
  \<^verbatim>\<open>top()\<close> is \<^verbatim>\<open>c.front()\<close>; \<^verbatim>\<open>emplace\<close> is \<^verbatim>\<open>emplace_back\<close> followed by
  \<^verbatim>\<open>std::push_heap\<close>; \<^verbatim>\<open>pop()\<close> is \<^verbatim>\<open>std::pop_heap\<close> followed by
  \<^verbatim>\<open>pop_back\<close>. The search calls \<^verbatim>\<open>top()\<close> and \<^verbatim>\<open>pop()\<close> on a non-empty
  queue only (\<open>IterateNodes\<close> below returns \<open>None\<close> on an empty one).
\<close>

definition qTop :: "(int \<times> rat) list \<Rightarrow> int \<times> rat" where
  "qTop q = hd q"

definition qPush :: "int \<times> rat \<Rightarrow> (int \<times> rat) list \<Rightarrow> (int \<times> rat) list" where
  "qPush e q = gnu_push_heap (q @ [e]) (length q) 0 e"

definition qPop :: "(int \<times> rat) list \<Rightarrow> (int \<times> rat) list" where
  "qPop q =
     (if length q > 1
      then butlast (gnu_adjust_heap (q[length q - 1 := q ! 0]) 0 (length q - 1)
                      (q ! (length q - 1)))
      else butlast q)"

definition ResetQueue :: "PathSearch \<Rightarrow> PathSearch" where
  "ResetQueue s = s\<lparr>openNodes := []\<rparr>"

definition Init :: "Config \<Rightarrow> nat \<Rightarrow> nat \<Rightarrow> PathSearch \<Rightarrow> PathSearch" where
  "Init cfg sparseSize denseSize s =
     ResetQueue (s\<lparr>allSearchedNodes := Reset (dummyNode cfg) (allSearchedNodes s) sparseSize\<rparr>)"

text \<open>Dereferencing a \<^verbatim>\<open>SearchNode*\<close>.\<close>

definition nodeAt :: "PathSearch \<Rightarrow> nat \<Rightarrow> SearchNode option" where
  "nodeAt s slot =
     (if slot < length (denseData (allSearchedNodes s))
      then Some (denseData (allSearchedNodes s) ! slot) else None)"

definition putNode :: "PathSearch \<Rightarrow> nat \<Rightarrow> SearchNode \<Rightarrow> PathSearch" where
  "putNode s slot n =
     s\<lparr>allSearchedNodes :=
         (allSearchedNodes s)\<lparr>denseData := (denseData (allSearchedNodes s))[slot := n]\<rparr>\<rparr>"

text \<open>
  \<^verbatim>\<open>v / SQUARE_SIZE\<close> converted to an integer; the points are clamped into the
  map, so the value is not negative.
\<close>

definition toSquare :: "Config \<Rightarrow> rat \<Rightarrow> int" where
  "toSquare cfg v = \<lfloor>v / of_nat (SQUARE_SIZE cfg)\<rfloor>"

subsection \<open>InitializeThread, Execute\<close>

definition InitializeThread :: "Config \<Rightarrow> NodeLayer \<Rightarrow> PathSearch \<Rightarrow> PathSearch option" where
  "InitializeThread cfg L s0 =
     (let s = Init cfg (GetMaxNodesAlloced L) (GetNumLeafNodes L) (s0\<lparr>badGoal := False\<rparr>);
          srcNode = GetNode L (nat (toSquare cfg (fst (srcPoint s))))
                              (nat (toSquare cfg (snd (snd (srcPoint s)))));
          tgtNode = GetNode L (nat (toSquare cfg (fst (tgtPoint s))))
                              (nat (toSquare cfg (snd (snd (tgtPoint s)))));
          altTgtNode =
            (if AllSquaresImpassable tgtNode then
               GetNearestNodeInArea L
                 (max (sint (xmin tgtNode) - 16) 0, max (sint (zmin tgtNode) - 16) 0,
                  min (sint (xmax tgtNode) + 16) (sint (mapx cfg)),
                  min (sint (zmax tgtNode) + 16) (sint (mapy cfg)))
                 (toSquare cfg (fst (tgtPoint s)), toSquare cfg (snd (snd (tgtPoint s))))
             else None);
          tgtNode' = (case altTgtNode of Some a \<Rightarrow> a | None \<Rightarrow> tgtNode);
          s1 = (case altTgtNode of Some a \<Rightarrow> s\<lparr>badGoal := True\<rparr> | None \<Rightarrow> s)
      in do {
        (srcSlot, reg1) \<leftarrow>
          InsertINode (newSearchNode (initCost cfg)) (allSearchedNodes s1) (GetIndex srcNode);
        (tgtSlot, reg2) \<leftarrow>
          InsertINodeIfNotPresent (newSearchNode (initCost cfg)) reg1 (GetIndex tgtNode');
        Some (s1\<lparr>allSearchedNodes := reg2, srcSearchNode := srcSlot,
                  tgtSearchNode := tgtSlot, curSearchNode := None,
                  nextSearchNode := None, minSearchNode := srcSlot\<rparr>)
      })"

definition ResetState :: "Config \<Rightarrow> PathSearch \<Rightarrow> nat \<Rightarrow> PathSearch option" where
  "ResetState cfg s node = do {
     n \<leftarrow> nodeAt s node;
     let k = QTPFS_MAX_NETPOINTS_PER_NODE_EDGE cfg;
     if k = 0 then None
     else Some (s\<lparr>netPoints := (replicate k (0, 0))[0 := (fst (srcPoint s), snd (snd (srcPoint s)))],
                  gCosts := replicate k 0,
                  hCosts := (replicate k 0)[0 := distance cfg (srcPoint s) (tgtPoint s) * hCostMult s],
                  openNodes := qPush (index n, 0) []\<rparr>)
   }"

definition UpdateNode :: "PathSearch \<Rightarrow> nat \<Rightarrow> nat option \<Rightarrow> nat \<Rightarrow> PathSearch option" where
  "UpdateNode s nextNode prevNode' netPointIdx = do {
     n \<leftarrow> nodeAt s nextNode;
     if netPointIdx < length (netPoints s) \<and> netPointIdx < length (gCosts s)
          \<and> netPointIdx < length (hCosts s)
     then Some (putNode s nextNode
            (SetNeighborEdgeTransitionPoint (netPoints s ! netPointIdx)
              (SetPathCosts (gCosts s ! netPointIdx) (hCosts s ! netPointIdx)
                (SetPrevNode prevNode' n))))
     else None
   }"

text \<open>
  One pass of the inner loop over the candidate crossing points of an edge
  (index \<open>j\<close>), carrying \<^verbatim>\<open>netPointIdx\<close>.
\<close>

definition netPointStep ::
  "Config \<Rightarrow> NodeLayer \<Rightarrow> INode \<Rightarrow> float3 \<Rightarrow> nat \<Rightarrow> int \<Rightarrow> bool \<Rightarrow> nat
     \<Rightarrow> PathSearch \<times> nat \<Rightarrow> (PathSearch \<times> nat) option" where
  "netPointStep cfg L curNode curPoint i nxtNodesId isTarget j sn =
     (let s = fst sn; netPointIdx = snd sn in do {
        cur \<leftarrow> curSearchNode s;
        c \<leftarrow> nodeAt s cur;
        let p = GetNeighborEdgeTransitionPoint curNode
                  (1 + i * QTPFS_MAX_NETPOINTS_PER_NODE_EDGE cfg + j);
        let gDist = distance cfg curPoint (xz3 p);
        let hDist = distance cfg (tgtPoint s) (xz3 p);
        let curNodeSanitizedCost =
              (if AllSquaresImpassable curNode then QTPFS_CLOSED_NODE_COST cfg
               else GetMoveCost curNode);
        let g0 = gCost c + curNodeSanitizedCost * gDist;
        let h = hDist * hCostMult s * (if isTarget then 0 else 1);
        let g = (if isTarget then g0 + GetMoveCost (GetPoolNode L nxtNodesId) * hDist else g0);
        if j < length (netPoints s) \<and> j < length (gCosts s) \<and> j < length (hCosts s)
             \<and> netPointIdx < length (gCosts s) \<and> netPointIdx < length (hCosts s)
        then
          (let s' = s\<lparr>netPoints := (netPoints s)[j := p],
                      gCosts := (gCosts s)[j := g],
                      hCosts := (hCosts s)[j := h]\<rparr>
           in Some (s', if g + h < gCosts s' ! netPointIdx + hCosts s' ! netPointIdx
                        then j else netPointIdx))
        else None
      })"

fun netPointLoop ::
  "Config \<Rightarrow> NodeLayer \<Rightarrow> INode \<Rightarrow> float3 \<Rightarrow> nat \<Rightarrow> int \<Rightarrow> bool \<Rightarrow> nat list
     \<Rightarrow> PathSearch \<times> nat \<Rightarrow> (PathSearch \<times> nat) option" where
  "netPointLoop cfg L curNode curPoint i nxtNodesId isTarget [] sn = Some sn"
| "netPointLoop cfg L curNode curPoint i nxtNodesId isTarget (j # js) sn =
     (case netPointStep cfg L curNode curPoint i nxtNodesId isTarget j sn of
        None \<Rightarrow> None
      | Some sn' \<Rightarrow> netPointLoop cfg L curNode curPoint i nxtNodesId isTarget js sn')"

text \<open>
  The first part of the body of the loop over the neighbors (index \<open>i\<close>): the
  neighbor's record is fetched or created and the candidates are evaluated. The
  result is the state and the selected \<^verbatim>\<open>netPointIdx\<close>.
\<close>

definition evalNeighbor ::
  "Config \<Rightarrow> NodeLayer \<Rightarrow> INode \<Rightarrow> float3 \<Rightarrow> nat \<Rightarrow> PathSearch
     \<Rightarrow> (PathSearch \<times> nat) option" where
  "evalNeighbor cfg L curNode curPoint i s =
     (if i < length (GetNeighbors curNode) then do {
        let nxtNodesId = GetNeighbors curNode ! i;
        (slot, reg) \<leftarrow>
          InsertINodeIfNotPresent (newSearchNode (initCost cfg)) (allSearchedNodes s) nxtNodesId;
        let s1 = s\<lparr>allSearchedNodes := reg, nextSearchNode := Some slot\<rparr>;
        let isTarget = (slot = tgtSearchNode s1);
        netPointLoop cfg L curNode curPoint i nxtNodesId isTarget
          [0..<QTPFS_MAX_NETPOINTS_PER_NODE_EDGE cfg] (s1, 0)
      } else None)"

text \<open>The second part: the relaxation test, \<^verbatim>\<open>UpdateNode\<close> and the push.\<close>

definition relax :: "PathSearch \<Rightarrow> nat \<Rightarrow> PathSearch option" where
  "relax s netPointIdx = do {
     nxt \<leftarrow> nextSearchNode s;
     n \<leftarrow> nodeAt s nxt;
     if netPointIdx < length (gCosts s) then
       (if gCosts s ! netPointIdx \<ge> gCost n then Some s
        else do {
          s' \<leftarrow> UpdateNode s nxt (curSearchNode s) netPointIdx;
          n' \<leftarrow> nodeAt s' nxt;
          Some (s'\<lparr>openNodes := qPush (index n', GetHeapPriority n') (openNodes s')\<rparr>)
        })
     else None
   }"

definition neighborStep ::
  "Config \<Rightarrow> NodeLayer \<Rightarrow> INode \<Rightarrow> float3 \<Rightarrow> nat \<Rightarrow> PathSearch \<Rightarrow> PathSearch option" where
  "neighborStep cfg L curNode curPoint i s = do {
     (s', netPointIdx) \<leftarrow> evalNeighbor cfg L curNode curPoint i s;
     relax s' netPointIdx
   }"

fun neighborLoop ::
  "Config \<Rightarrow> NodeLayer \<Rightarrow> INode \<Rightarrow> float3 \<Rightarrow> nat list \<Rightarrow> PathSearch \<Rightarrow> PathSearch option" where
  "neighborLoop cfg L curNode curPoint [] s = Some s"
| "neighborLoop cfg L curNode curPoint (i # is) s =
     (case neighborStep cfg L curNode curPoint i s of
        None \<Rightarrow> None
      | Some s' \<Rightarrow> neighborLoop cfg L curNode curPoint is s')"

definition IterateNodeNeighbors :: "Config \<Rightarrow> NodeLayer \<Rightarrow> INode \<Rightarrow> PathSearch \<Rightarrow> PathSearch option" where
  "IterateNodeNeighbors cfg L curNode s = do {
     cur \<leftarrow> curSearchNode s;
     c \<leftarrow> nodeAt s cur;
     neighborLoop cfg L curNode (xz3 (selectedNetpoint c))
       [0..<length (GetNeighbors curNode)] s
   }"

definition IterateNodes :: "Config \<Rightarrow> NodeLayer \<Rightarrow> PathSearch \<Rightarrow> PathSearch option" where
  "IterateNodes cfg L s =
     (if openNodes s = [] then None
      else do {
        let curOpenNode = qTop (openNodes s);
        cur \<leftarrow> slotOf (allSearchedNodes s) (fst curOpenNode);
        let s1 = s\<lparr>curSearchNode := Some cur, openNodes := qPop (openNodes s)\<rparr>;
        if cur = tgtSearchNode s1 then Some s1
        else do {
          let curNode = GetPoolNode L (fst curOpenNode);
          c \<leftarrow> nodeAt s1 cur;
          if GetHeapPriority c < snd curOpenNode then Some s1
          else do {
            m \<leftarrow> nodeAt s1 (minSearchNode s1);
            let s2 = (if hCost c < hCost m then s1\<lparr>minSearchNode := cur\<rparr> else s1);
            IterateNodeNeighbors cfg L curNode s2
          }
        }
      })"

text \<open>
  The loop \<^verbatim>\<open>while (!(*openNodes).empty())\<close> of \<^verbatim>\<open>ExecutePathSearch\<close>. It need
  not terminate; \<open>None\<close> is a run that does not return (or runs into undefined
  behaviour). In \<open>seedSearch\<close> below, \<^verbatim>\<open>1.0f / maxRelSpeedMod\<close> is the division of
  rationals, which is 0 where the float division by zero gives an infinity.
\<close>

partial_function (option) searchLoop :: "Config \<Rightarrow> NodeLayer \<Rightarrow> PathSearch \<Rightarrow> PathSearch option" where
  "searchLoop cfg L s =
     (if openNodes s = [] then Some s
      else case IterateNodes cfg L s of
             None \<Rightarrow> None
           | Some s1 \<Rightarrow>
               searchLoop cfg L
                 (if curSearchNode s1 = Some (tgtSearchNode s1)
                  then ResetQueue (s1\<lparr>haveFullPath := True\<rparr>)
                  else s1\<lparr>haveFullPath := False\<rparr>))"

declare searchLoop.simps [code]

text \<open>
  \<^verbatim>\<open>ExecutePathSearch\<close> in two parts: \<open>seedSearch\<close> is its code up to the loop
  (the heuristic multiplier, \<^verbatim>\<open>ResetState\<close> and \<^verbatim>\<open>UpdateNode\<close> of the source).
  The functions return the state together with their \<^verbatim>\<open>bool\<close> result.
\<close>

definition seedSearch :: "Config \<Rightarrow> NodeLayer \<Rightarrow> PathSearch \<Rightarrow> PathSearch option" where
  "seedSearch cfg L s0 = do {
     let s = s0\<lparr>hCostMult := (case searchType s0 of
                   PATH_SEARCH_ASTAR \<Rightarrow> 1 / maxRelSpeedMod L
                 | PATH_SEARCH_DIJKSTRA \<Rightarrow> 0)\<rparr>;
     s1 \<leftarrow> ResetState cfg s (srcSearchNode s);
     UpdateNode s1 (srcSearchNode s1) None 0
   }"

definition ExecutePathSearch :: "Config \<Rightarrow> NodeLayer \<Rightarrow> PathSearch \<Rightarrow> (bool \<times> PathSearch) option" where
  "ExecutePathSearch cfg L s0 = do {
     s2 \<leftarrow> seedSearch cfg L s0;
     s3 \<leftarrow> searchLoop cfg L s2;
     let s4 = s3\<lparr>havePartPath := (minSearchNode s3 \<noteq> srcSearchNode s3)\<rparr>;
     if \<not> haveFullPath s4 \<and> havePartPath s4 then do {
       m \<leftarrow> nodeAt s4 (minSearchNode s4);
       let minNode = GetPoolNode L (index m);
       Some (haveFullPath s4 \<or> havePartPath s4,
             s4\<lparr>tgtSearchNode := minSearchNode s4,
                tgtPoint := (of_nat (unat (xmid minNode * of_nat (SQUARE_SIZE cfg))),
                             fst (snd (tgtPoint s4)),
                             of_nat (unat (zmid minNode * of_nat (SQUARE_SIZE cfg))))\<rparr>)
     }
     else Some (haveFullPath s4 \<or> havePartPath s4, s4)
   }"

definition ExecuteRawSearch :: "NodeLayer \<Rightarrow> PathSearch \<Rightarrow> bool \<times> PathSearch" where
  "ExecuteRawSearch L s =
     (let s' = s\<lparr>haveFullPath := DoRawSearch L (srcPoint s) (tgtPoint s)\<rparr>
      in (haveFullPath s', s'))"

definition Execute :: "Config \<Rightarrow> NodeLayer \<Rightarrow> PathSearch \<Rightarrow> (bool \<times> PathSearch) option" where
  "Execute cfg L s0 =
     (let s = s0\<lparr>haveFullPath := (srcSearchNode s0 = tgtSearchNode s0), havePartPath := False\<rparr>
      in if haveFullPath s then Some (True, s)
         else if rawPathCheck s then Some (ExecuteRawSearch L s)
         else ExecutePathSearch cfg L s)"


subsection \<open>TracePath, SmoothPath, Finalize, SharedFinalize\<close>

text \<open>
  The loop of \<^verbatim>\<open>TracePath\<close> over the predecessor links; \<open>pts\<close> is the deque
  \<^verbatim>\<open>points\<close>, its front first. The loop need not terminate (the links may form a
  cycle that misses the source).

  Modelled from the spec: \<^verbatim>\<open>float3::operator!=\<close> (float3.h) is not among the
  sources. The spec skips a point identical to the previous one, so the test
  \<^verbatim>\<open>tmpPoint != prvPoint\<close> is inequality of the coordinates.
\<close>

partial_function (option) traceLoop ::
  "PathSearch \<Rightarrow> nat \<Rightarrow> nat option \<Rightarrow> float3 \<Rightarrow> float3 list \<Rightarrow> float3 list option" where
  "traceLoop s tmpNode prvNode prvPoint pts =
     (case prvNode of
        None \<Rightarrow> Some pts
      | Some prv \<Rightarrow>
          if tmpNode = srcSearchNode s then Some pts
          else (case nodeAt s tmpNode of
                  None \<Rightarrow> None
                | Some t \<Rightarrow>
                    (case nodeAt s prv of
                       None \<Rightarrow> None
                     | Some p \<Rightarrow>
                         traceLoop s prv (prevNode p) (xz3 (selectedNetpoint t))
                           (if xz3 (selectedNetpoint t) \<noteq> prvPoint
                            then xz3 (selectedNetpoint t) # pts else pts))))"

declare traceLoop.simps [code]

text \<open>
  The loop that writes the collected points to the indices 1 to N - 2 of the path.
\<close>

fun fillPoints :: "float3 list \<Rightarrow> 'a IPath_scheme \<Rightarrow> 'a IPath_scheme option" where
  "fillPoints [] path = Some path"
| "fillPoints (p # ps) path =
     (case SetPoint ((NumPoints path - length (p # ps)) - 1) p path of
        None \<Rightarrow> None
      | Some path' \<Rightarrow> fillPoints ps path')"

definition TracePath :: "PathSearch \<Rightarrow> 'a IPath_scheme \<Rightarrow> 'a IPath_scheme option" where
  "TracePath s path = do {
     pts \<leftarrow> (if srcSearchNode s \<noteq> tgtSearchNode s then do {
                t \<leftarrow> nodeAt s (tgtSearchNode s);
                traceLoop s (tgtSearchNode s) (prevNode t) (tgtPoint s) []
              } else Some []);
     let path1 = (if pts \<noteq> [] then AllocPoints (length pts + 2) path else path);
     path2 \<leftarrow> fillPoints pts path1;
     path3 \<leftarrow> SetSourcePoint (srcPoint s) path2;
     SetTargetPoint (tgtPoint s) path3
   }"

text \<open>
  The loop of \<^verbatim>\<open>SmoothPathIter\<close> on (\<^verbatim>\<open>n1\<close>, \<^verbatim>\<open>ni\<close>, \<^verbatim>\<open>nm\<close>) and the
  route; \<^verbatim>\<open>n0\<close> is the value of \<^verbatim>\<open>n1\<close> at the start of a pass. The pass
  dereferences the predecessor of \<^verbatim>\<open>n0\<close> and reads the waypoints \<^verbatim>\<open>ni\<close>,
  \<^verbatim>\<open>ni - 1\<close> and \<^verbatim>\<open>ni - 2\<close> after \<^verbatim>\<open>ni -= 1\<close>, in unsigned arithmetic: it
  needs three waypoints up to the one it stands at. The loop walks the predecessor
  links and need not terminate.
\<close>

partial_function (option) smoothLoop ::
  "Config \<Rightarrow> NodeLayer \<Rightarrow> PathSearch \<Rightarrow> nat \<Rightarrow> nat \<Rightarrow> nat \<Rightarrow> float3 list
     \<Rightarrow> (float3 list \<times> nat) option" where
  "smoothLoop cfg L s n1 ni nm pts =
     (if n1 = srcSearchNode s then Some (pts, nm)
      else (case nodeAt s n1 of
              None \<Rightarrow> None
            | Some r0 \<Rightarrow>
                (case prevNode r0 of
                   None \<Rightarrow> None
                 | Some n1' \<Rightarrow>
                     (case nodeAt s n1' of
                        None \<Rightarrow> None
                      | Some r1 \<Rightarrow>
                          if ni < 3 \<or> length pts < ni then None
                          else (case smoothTriplet cfg (GetPoolNode L (index r0))
                                       (GetPoolNode L (index r1))
                                       (pts ! (ni - 1)) (pts ! (ni - 2)) (pts ! (ni - 3)) of
                                  None \<Rightarrow> None
                                | Some (pi', moved) \<Rightarrow>
                                    smoothLoop cfg L s n1' (ni - 1)
                                      (nm + (if moved then 1 else 0))
                                      (pts[ni - 2 := pi']))))))"

declare smoothLoop.simps [code]

definition SmoothPathIter ::
  "Config \<Rightarrow> NodeLayer \<Rightarrow> PathSearch \<Rightarrow> 'a IPath_scheme \<Rightarrow> (bool \<times> 'a IPath_scheme) option" where
  "SmoothPathIter cfg L s path = do {
     (pts, nm) \<leftarrow> smoothLoop cfg L s (tgtSearchNode s) (NumPoints path) 0 (points path);
     Some (nm \<noteq> 0, path\<lparr>points := pts\<rparr>)
   }"

text \<open>The loop of \<^verbatim>\<open>SmoothPath\<close>, on the number of passes left.\<close>

fun smoothPasses ::
  "Config \<Rightarrow> NodeLayer \<Rightarrow> PathSearch \<Rightarrow> nat \<Rightarrow> 'a IPath_scheme \<Rightarrow> 'a IPath_scheme option" where
  "smoothPasses cfg L s 0 path = Some path"
| "smoothPasses cfg L s (Suc k) path =
     (case SmoothPathIter cfg L s path of
        None \<Rightarrow> None
      | Some (moved, path') \<Rightarrow> if moved then smoothPasses cfg L s k path' else Some path')"

definition SmoothPath ::
  "Config \<Rightarrow> NodeLayer \<Rightarrow> PathSearch \<Rightarrow> 'a IPath_scheme \<Rightarrow> 'a IPath_scheme option" where
  "SmoothPath cfg L s path =
     (if NumPoints path = 2 then Some path
      else smoothPasses cfg L s (QTPFS_MAX_SMOOTHING_ITERATIONS cfg) path)"

definition Finalize ::
  "Config \<Rightarrow> NodeLayer \<Rightarrow> PathSearch \<Rightarrow> 'a IPath_scheme \<Rightarrow> 'a IPath_scheme option" where
  "Finalize cfg L s path = do {
     path1 \<leftarrow> (if \<not> rawPathCheck s then do {
                  p \<leftarrow> TracePath s path;
                  SmoothPath cfg L s p
                } else Some path);
     Some (SetHasPartialPath (havePartPath s)
            (SetHasFullPath (haveFullPath s \<and> \<not> badGoal s)
              (SetBoundingBox cfg path1)))
   }"

text \<open>
  \<^verbatim>\<open>SharedFinalize\<close> changes the destination path and the search's own flags; it
  returns both. Its assertions on the path IDs and on the destination's two points
  are not part of the model.
\<close>

definition SharedFinalize ::
  "Config \<Rightarrow> PathSearch \<Rightarrow> 'b IPath_scheme \<Rightarrow> 'a IPath_scheme
     \<Rightarrow> (PathSearch \<times> 'a IPath_scheme) option" where
  "SharedFinalize cfg s srcPath dstPath = do {
     d1 \<leftarrow> SetSourcePoint (srcPoint s) (CopyPoints srcPath dstPath);
     d2 \<leftarrow> SetTargetPoint (tgtPoint s) d1;
     let d3 = SetHasFullPath (hasFullPath srcPath) (SetBoundingBox cfg d2);
     Some (s\<lparr>haveFullPath := hasFullPath srcPath, havePartPath := hasPartialPath srcPath\<rparr>, d3)
   }"

subsection \<open>The sharing key\<close>

text \<open>
  \<^verbatim>\<open>GetNextBitShift\<close>: after \<^verbatim>\<open>n = (n > 0) ? n - 1 : 0\<close> the value is not negative,
  so the loop \<^verbatim>\<open>while (n >>= 1) c = c << 1\<close> runs on a natural number.
\<close>

fun GetNextBitShift_loop :: "nat \<Rightarrow> int \<Rightarrow> int" where
  "GetNextBitShift_loop n c =
     (if n div 2 \<noteq> 0 then GetNextBitShift_loop (n div 2) (c * 2) else c)"

declare GetNextBitShift_loop.simps [simp del]

definition GetNextBitShift :: "int \<Rightarrow> int" where
  "GetNextBitShift n = GetNextBitShift_loop (nat (if n > 0 then n - 1 else 0)) 0 + 1"

definition GetChildId :: "32 word \<Rightarrow> 32 word \<Rightarrow> 32 word \<Rightarrow> 32 word" where
  "GetChildId nodeNumber i rootMask =
     (let rootId = rootMask AND nodeNumber;
          nodeId = (NOT rootMask) AND nodeNumber
      in rootId OR (push_bit 2 nodeId + (i + 1)))"

definition GenerateHash2 :: "Config \<Rightarrow> NodeLayer \<Rightarrow> 32 word \<Rightarrow> 32 word \<Rightarrow> 64 word" where
  "GenerateHash2 cfg L src dest =
     (let N = (scast (mapx cfg * mapy cfg) :: 64 word);
          k = GetNodelayer L
      in ucast src + ucast dest * N + ucast k * N * N)"

text \<open>
  The descent loop of \<^verbatim>\<open>GenerateHash\<close>, on
  (\<^verbatim>\<open>nodeSize\<close>, \<^verbatim>\<open>xoff\<close>, \<^verbatim>\<open>zoff\<close>, \<^verbatim>\<open>srcNodeNumber\<close>); it returns the final
  \<^verbatim>\<open>srcNodeNumber\<close>.
\<close>

function hashLoop ::
  "32 word \<Rightarrow> 32 word \<Rightarrow> 32 word \<Rightarrow> 32 word \<Rightarrow> 32 word \<Rightarrow> 32 word \<Rightarrow> 32 word \<Rightarrow> 32 word
     \<Rightarrow> 32 word" where
  "hashLoop maxSize rootMask srcX srcZ nodeSize xoff zoff srcNodeNumber =
     (if nodeSize > maxSize then
        (let isRight = (srcX \<ge> xoff + drop_bit 1 nodeSize);
             isDown = (srcZ \<ge> zoff + drop_bit 1 nodeSize);
             offset = (if isRight then 1 else 0) + (if isDown then 2 else 0);
             srcNodeNumber' = GetChildId srcNodeNumber offset rootMask;
             nodeSize' = drop_bit 1 nodeSize
         in hashLoop maxSize rootMask srcX srcZ nodeSize'
              (xoff + nodeSize' * (if isRight then 1 else 0))
              (zoff + nodeSize' * (if isDown then 1 else 0))
              srcNodeNumber')
      else srcNodeNumber)"
  by pat_completeness auto
termination
proof (relation "measure (\<lambda>(maxSize, rootMask, srcX, srcZ, nodeSize, xoff, zoff, n). unat nodeSize)",
    goal_cases)
  case 1
  show ?case by simp
next
  case (2 maxSize rootMask srcX srcZ nodeSize xoff zoff srcNodeNumber)
  from 2(1) have "unat maxSize < unat nodeSize" by (simp add: word_less_nat_alt)
  then have "unat nodeSize div 2 < unat nodeSize" by simp
  with 2 show ?case by (simp add: drop_bit_eq_div unat_div)
qed

declare hashLoop.simps [simp del]

definition GenerateHash :: "Config \<Rightarrow> NodeLayer \<Rightarrow> PathSearch \<Rightarrow> INode \<Rightarrow> INode \<Rightarrow> 64 word" where
  "GenerateHash cfg L s srcNode tgtNode =
     (let nodeSize = xsize srcNode in
      if rawPathCheck s then BAD_HASH cfg
      else if nodeSize < QTPFS_SHARE_PATH_MIN_SIZE cfg then BAD_HASH cfg
      else
        (let shift = GetNextBitShift (footprint L) in
         if nodeSize < push_bit (nat shift) 1 then BAD_HASH cfg
         else if (push_bit (nat shift) 1 :: 32 word) > QTPFS_SHARE_PATH_MAX_SIZE cfg then BAD_HASH cfg
         else
           GenerateHash2 cfg L
             (hashLoop (QTPFS_SHARE_PATH_MAX_SIZE cfg) (GetRootMask L)
                (word_of_int (toSquare cfg (fst (srcPoint s))))
                (word_of_int (toSquare cfg (snd (snd (srcPoint s)))))
                nodeSize (xmin srcNode) (zmin srcNode) (GetNodeNumber srcNode))
             (GetNodeNumber tgtNode)))"


subsection \<open>The quadrant choices of the descent\<close>

text \<open>
  The spec's words for the descent of the sharing key: repeatedly quarter the node
  and pick the quadrant that holds the source square. \<open>quadrantChoices\<close> lists the
  picks (right?, down?) from the coarse node down to the first size that is not above
  the maximum shareable size; \<open>childOf\<close> folds one pick into the node number.
\<close>

function quadrantChoices ::
  "32 word \<Rightarrow> 32 word \<Rightarrow> 32 word \<Rightarrow> 32 word \<Rightarrow> 32 word \<Rightarrow> 32 word \<Rightarrow> (bool \<times> bool) list" where
  "quadrantChoices maxSize srcX srcZ nodeSize xoff zoff =
     (if nodeSize > maxSize then
        (let half = drop_bit 1 nodeSize;
             isRight = (srcX \<ge> xoff + half);
             isDown = (srcZ \<ge> zoff + half)
         in (isRight, isDown) #
            quadrantChoices maxSize srcX srcZ half
              (if isRight then xoff + half else xoff)
              (if isDown then zoff + half else zoff))
      else [])"
  by pat_completeness auto
termination
proof (relation "measure (\<lambda>(maxSize, srcX, srcZ, nodeSize, xoff, zoff). unat nodeSize)", goal_cases)
  case 1
  show ?case by simp
next
  case (2 maxSize srcX srcZ nodeSize xoff zoff)
  from 2(1) have "unat maxSize < unat nodeSize" by (simp add: word_less_nat_alt)
  then have "unat nodeSize div 2 < unat nodeSize" by simp
  with 2 show ?case by (simp add: drop_bit_eq_div unat_div)
qed

declare quadrantChoices.simps [simp del]

definition childOf :: "32 word \<Rightarrow> 32 word \<Rightarrow> bool \<times> bool \<Rightarrow> 32 word" where
  "childOf rootMask nodeNumber q =
     GetChildId nodeNumber ((if fst q then 1 else 0) + (if snd q then 2 else 0)) rootMask"

subsection \<open>Example data\<close>

text \<open>
  A configuration and a 64 by 64 node used by the examples.

  \<open>exDistance\<close> is the Euclidean distance \<^verbatim>\<open>float3::distance\<close>, rounded down to
  a multiple of 1/1024: the square root is the integer square root \<open>isqrt\<close> of the
  squared distance scaled by \<open>2 ^ 20\<close>. It is the exact distance wherever that is
  a multiple of 1/1024, so between any two points with integer coordinates that
  differ in one coordinate only. In every search below, the source point, the target
  point and all crossing points lie on one line parallel to the x axis and have
  integer coordinates: each distance the runs measure is exact (lemma
  \<open>exDistance_axis\<close> below), and so are the sums and products the costs are made
  of. The bounding box of the examples is left trivial: no statement reads it.

  \<open>exSmoothTriplet\<close> gives the geometry of a smoothing pass for three waypoints
  that advance along one line parallel to the x axis: the two segments are parallel,
  their normalised dot product is 1, and the code skips the triplet
  (\<^verbatim>\<open>if (dot >= 0.995f) continue\<close>). For any other triplet the example gives no
  geometry, and a run that needs it has no result.
\<close>

function isqrt :: "int \<Rightarrow> int" where
  "isqrt n =
     (if n < 1 then 0
      else (let r = 2 * isqrt (n div 4)
            in if (r + 1) * (r + 1) \<le> n then r + 1 else r))"
  by pat_completeness auto
termination
  by (relation "measure nat") auto

declare isqrt.simps [simp del]

definition exDistance :: "float3 \<Rightarrow> float3 \<Rightarrow> rat" where
  "exDistance p q =
     (let dx = fst p - fst q; dy = fst (snd p) - fst (snd q); dz = snd (snd p) - snd (snd q)
      in of_int (isqrt \<lfloor>(dx * dx + dy * dy + dz * dz) * 2 ^ 20\<rfloor>) / 2 ^ 10)"

definition exSmoothTriplet ::
  "INode \<Rightarrow> INode \<Rightarrow> float3 \<Rightarrow> float3 \<Rightarrow> float3 \<Rightarrow> (float3 \<times> bool) option" where
  "exSmoothTriplet nn0 nn1 p0 p1 p2 =
     (if snd p0 = snd p1 \<and> snd p1 = snd p2 \<and>
         ((fst p0 < fst p1 \<and> fst p1 < fst p2) \<or> (fst p0 > fst p1 \<and> fst p1 > fst p2))
      then Some (p1, False) else None)"

definition exConfig :: Config where
  "exConfig =
     \<lparr>QTPFS_MAX_NETPOINTS_PER_NODE_EDGE = 2, QTPFS_CLOSED_NODE_COST = 1000,
      QTPFS_SHARE_PATH_MIN_SIZE = 8, QTPFS_SHARE_PATH_MAX_SIZE = 16, BAD_HASH = - 1,
      SQUARE_SIZE = 8, mapx = 64, mapy = 64, initCost = 1000000,
      distance = exDistance, boundingBox = (\<lambda>ps. ((0, 0, 0), (0, 0, 0))),
      dummyNode = newSearchNode 1000000 (- 1),
      QTPFS_MAX_SMOOTHING_ITERATIONS = 10, smoothTriplet = exSmoothTriplet\<rparr>"

definition exNode :: "int \<Rightarrow> 32 word \<Rightarrow> INode" where
  "exNode i num =
     \<lparr>GetIndex = i, GetNodeNumber = num, AllSquaresImpassable = False, GetMoveCost = 1,
      GetNeighbors = [], GetNeighborEdgeTransitionPoint = (\<lambda>k. (0, 0)),
      xmin = 0, zmin = 0, xmax = 64, zmax = 64, xmid = 32, zmid = 32, xsize = 64\<rparr>"

definition exHashLayer :: "int \<Rightarrow> NodeLayer" where
  "exHashLayer fp =
     \<lparr>GetNode = (\<lambda>x z. exNode 1 1), GetPoolNode = (\<lambda>i. exNode i 1),
      GetNearestNodeInArea = (\<lambda>r p. None), GetMaxNodesAlloced = 8, GetNumLeafNodes = 8,
      GetNodelayer = 2, GetRootMask = 0xFF000000, maxRelSpeedMod = 1, footprint = fp,
      DoRawSearch = (\<lambda>p q. False)\<rparr>"

definition exRequest :: "float3 \<Rightarrow> float3 \<Rightarrow> PathSearch" where
  "exRequest p q =
     \<lparr>srcPoint = p, tgtPoint = q, rawPathCheck = False,
      searchType = PATH_SEARCH_ASTAR, badGoal = False, haveFullPath = False,
      havePartPath = False, hCostMult = 0, srcSearchNode = 0, tgtSearchNode = 0,
      curSearchNode = None, nextSearchNode = None, minSearchNode = 0,
      netPoints = [], gCosts = [], hCosts = [],
      allSearchedNodes = \<lparr>sparseIndex = [], denseData = []\<rparr>, openNodes = []\<rparr>"

text \<open>
  A row of four nodes of 8 by 8 squares, numbered 1 to 4 from the left; node 4 is
  impassable and unlinked, and the nearest passable node the index reports is node 1
  or node 3. The index offers the middle of an edge for both of its candidate
  crossing points. \<open>exFreshPath\<close> is a route as handed to the search: two points,
  both flags false.
\<close>

definition exRowNode :: "int \<Rightarrow> INode" where
  "exRowNode i =
     \<lparr>GetIndex = i, GetNodeNumber = word_of_int i,
      AllSquaresImpassable = (i = 4), GetMoveCost = 1,
      GetNeighbors = (if i = 1 then [2] else if i = 2 then [1, 3] else if i = 3 then [2] else []),
      GetNeighborEdgeTransitionPoint =
        (\<lambda>k. if i = 1 then (64, 32)
             else if i = 2 then (if k = 1 \<or> k = 2 then (64, 32) else (128, 32))
             else (128, 32)),
      xmin = word_of_int (8 * (i - 1)), zmin = 0, xmax = word_of_int (8 * i), zmax = 8,
      xmid = word_of_int (8 * i - 4), zmid = 4, xsize = 8\<rparr>"

definition exRowLayer :: NodeLayer where
  "exRowLayer =
     \<lparr>GetNode = (\<lambda>x z. exRowNode (int (x div 8) + 1)), GetPoolNode = exRowNode,
      GetNearestNodeInArea = (\<lambda>r p. Some (exRowNode (if fst p < 8 then 1 else 3))),
      GetMaxNodesAlloced = 8, GetNumLeafNodes = 4,
      GetNodelayer = 0, GetRootMask = 0xFF000000, maxRelSpeedMod = 1, footprint = 2,
      DoRawSearch = (\<lambda>p q. False)\<rparr>"

definition exFreshPath :: IPath where
  "exFreshPath =
     \<lparr>pathID = 1, points = [(0, 0, 0), (0, 0, 0)], boundingBoxMins = (0, 0, 0),
      boundingBoxMaxs = (0, 0, 0), hasFullPath = False, hasPartialPath = False\<rparr>"

text \<open>
  The parts of the state that the main loop and everything below it leave alone,
  and the parts only the loop and \<^verbatim>\<open>IterateNodes\<close> themselves write.
\<close>

definition fixedPart ::
  "PathSearch \<Rightarrow> float3 \<times> float3 \<times> bool \<times> SearchType \<times> bool \<times> rat \<times> nat \<times> nat \<times> bool" where
  "fixedPart s =
     (srcPoint s, tgtPoint s, rawPathCheck s, searchType s, badGoal s, hCostMult s,
      srcSearchNode s, tgtSearchNode s, havePartPath s)"

definition walkPart :: "PathSearch \<Rightarrow> nat option \<times> nat \<times> bool" where
  "walkPart s = (curSearchNode s, minSearchNode s, haveFullPath s)"

text \<open>
  The caller's sequence for one request: bind the worker context, execute, finalize.
  The result is the bound state, the value and state of \<^verbatim>\<open>Execute\<close>, and the route.
\<close>

definition runSearch ::
  "Config \<Rightarrow> NodeLayer \<Rightarrow> PathSearch \<Rightarrow> IPath
     \<Rightarrow> (PathSearch \<times> bool \<times> PathSearch \<times> IPath) option" where
  "runSearch cfg L s0 path = do {
     s1 \<leftarrow> InitializeThread cfg L s0;
     (b, s2) \<leftarrow> Execute cfg L s1;
     p \<leftarrow> Finalize cfg L s2 path;
     Some (s1, b, s2, p)
   }"

subsection \<open>The predecessor chain\<close>

text \<open>
  \<open>predChain s t ns\<close>: following the predecessor links from \<open>t\<close>, the loop of
  \<^verbatim>\<open>TracePath\<close> visits exactly the nodes \<open>ns\<close>, in this order, before it stops at the
  source node or at a node without a predecessor. \<open>crossingPoint\<close> is the chosen
  crossing point of a visited node as a \<^verbatim>\<open>float3\<close>.
\<close>

definition crossingPoint :: "PathSearch \<Rightarrow> nat \<Rightarrow> float3" where
  "crossingPoint s n =
     (case nodeAt s n of Some r \<Rightarrow> xz3 (selectedNetpoint r) | None \<Rightarrow> (0, 0, 0))"

fun predChain :: "PathSearch \<Rightarrow> nat \<Rightarrow> nat list \<Rightarrow> bool" where
  "predChain s t [] =
     (t = srcSearchNode s \<or> (case nodeAt s t of None \<Rightarrow> False | Some r \<Rightarrow> prevNode r = None))"
| "predChain s t (n # ns) =
     (n = t \<and> t \<noteq> srcSearchNode s \<and>
      (case nodeAt s t of
         None \<Rightarrow> False
       | Some r \<Rightarrow>
           (case prevNode r of
              None \<Rightarrow> False
            | Some p \<Rightarrow> nodeAt s p \<noteq> None \<and> predChain s p ns)))"

text \<open>
  \<open>runExecute\<close> is the caller's sequence up to \<^verbatim>\<open>Execute\<close>; its result is the
  state \<^verbatim>\<open>Finalize\<close> starts from. \<open>exTraceState\<close> is the state in which the A*
  search from (32, 0, 32) to (128, 0, 32) ends on the row of nodes. The target point
  lies on the edge between node 2 and node 3, so the target's own crossing point
  coincides with the literal target point.
\<close>

definition runExecute :: "Config \<Rightarrow> NodeLayer \<Rightarrow> PathSearch \<Rightarrow> PathSearch option" where
  "runExecute cfg L s0 = do {
     s1 \<leftarrow> InitializeThread cfg L s0;
     (b, s2) \<leftarrow> Execute cfg L s1;
     Some s2
   }"

definition exTraceState :: PathSearch where
  "exTraceState =
     \<lparr>srcPoint = (32, 0, 32), tgtPoint = (128, 0, 32), rawPathCheck = False,
      searchType = PATH_SEARCH_ASTAR, badGoal = False, haveFullPath = True,
      havePartPath = True, hCostMult = 1, srcSearchNode = 1, tgtSearchNode = 2,
      curSearchNode = Some 2, nextSearchNode = Some 2, minSearchNode = 3,
      netPoints = [(128, 32), (128, 32)], gCosts = [96, 96], hCosts = [0, 0],
      allSearchedNodes =
        \<lparr>sparseIndex = [0, 1, 3, 2, 0, 0, 0, 0],
         denseData =
           [newSearchNode 1000000 (- 1),
            \<lparr>index = 1, prevNode = None, fCost = 96, gCost = 0, hCost = 96,
             selectedNetpoint = (32, 32)\<rparr>,
            \<lparr>index = 3, prevNode = Some 3, fCost = 96, gCost = 96, hCost = 0,
             selectedNetpoint = (128, 32)\<rparr>,
            \<lparr>index = 2, prevNode = Some 1, fCost = 96, gCost = 32, hCost = 64,
             selectedNetpoint = (64, 32)\<rparr>]\<rparr>,
      openNodes = []\<rparr>"

text \<open>
  States of the search on the row of nodes. \<open>exSeeded\<close> is the state in which the
  A* search from node 1 to node 3 enters its main loop. \<open>exExpandState\<close> is the
  state in which \<^verbatim>\<open>IterateNodeNeighbors\<close> is called for node 2: the first pass of
  the loop has expanded node 1 and pushed node 2, the second pass has popped that
  entry and recorded node 2 as the node of least heuristic cost.
  \<open>exCachedPath\<close> is a cached partial route.
\<close>

definition exSeeded :: "PathSearch option" where
  "exSeeded = do {
     s1 \<leftarrow> InitializeThread exConfig exRowLayer (exRequest (32, 0, 32) (160, 0, 32));
     seedSearch exConfig exRowLayer s1
   }"


text \<open>
  A graph with a detour: node 1 reaches node 3 directly over a far crossing point
  (cost 100) and through node 2 (cost 20); the target, node 4, lies behind node 3 at
  cost 200. All crossing points lie on the x axis, and the index offers the same
  point for both candidates of an edge. In the uniform-cost search
  from node 1, node 3 is pushed at priority 100, then again at priority 20;
  \<open>exStalePop\<close> is the state after three passes of the main loop (which leave
  \<^verbatim>\<open>haveFullPath\<close> false), written out as \<open>exStaleState\<close>: the entry on top of the
  open list is the superseded one.
\<close>

definition exDetourNode :: "int \<Rightarrow> INode" where
  "exDetourNode i =
     \<lparr>GetIndex = i, GetNodeNumber = word_of_int i,
      AllSquaresImpassable = False, GetMoveCost = 1,
      GetNeighbors = (if i = 1 then [3, 2] else if i = 2 then [3] else if i = 3 then [4] else []),
      GetNeighborEdgeTransitionPoint =
        (\<lambda>k. if i = 1 then (if k = 1 \<or> k = 2 then (100, 0) else (10, 0))
             else if i = 2 then (20, 0)
             else (30, 0)),
      xmin = 0, zmin = 0, xmax = 8, zmax = 8, xmid = 4, zmid = 4, xsize = 8\<rparr>"

definition exDetourLayer :: NodeLayer where
  "exDetourLayer =
     \<lparr>GetNode = (\<lambda>x z. exDetourNode (if x < 8 then 1 else 4)), GetPoolNode = exDetourNode,
      GetNearestNodeInArea = (\<lambda>r p. None),
      GetMaxNodesAlloced = 8, GetNumLeafNodes = 4,
      GetNodelayer = 0, GetRootMask = 0xFF000000, maxRelSpeedMod = 1, footprint = 2,
      DoRawSearch = (\<lambda>p q. False)\<rparr>"

definition exStalePop :: "PathSearch option" where
  "exStalePop = do {
     s0 \<leftarrow> InitializeThread exConfig exDetourLayer
            ((exRequest (0, 0, 0) (200, 0, 0))\<lparr>searchType := PATH_SEARCH_DIJKSTRA\<rparr>);
     s1 \<leftarrow> seedSearch exConfig exDetourLayer s0;
     s2 \<leftarrow> IterateNodes exConfig exDetourLayer s1;
     s3 \<leftarrow> IterateNodes exConfig exDetourLayer s2;
     IterateNodes exConfig exDetourLayer s3
   }"

definition exStaleState :: PathSearch where
  "exStaleState =
     \<lparr>srcPoint = (0, 0, 0), tgtPoint = (200, 0, 0), rawPathCheck = False,
      searchType = PATH_SEARCH_DIJKSTRA, badGoal = False, haveFullPath = False,
      havePartPath = False, hCostMult = 0, srcSearchNode = 1, tgtSearchNode = 2,
      curSearchNode = Some 3, nextSearchNode = Some 2, minSearchNode = 1,
      netPoints = [(30, 0), (30, 0)], gCosts = [200, 200], hCosts = [0, 0],
      allSearchedNodes =
        \<lparr>sparseIndex = [0, 1, 4, 3, 2, 0, 0, 0],
         denseData =
           [newSearchNode 1000000 (- 1),
            \<lparr>index = 1, prevNode = None, fCost = 0, gCost = 0, hCost = 0,
             selectedNetpoint = (0, 0)\<rparr>,
            \<lparr>index = 4, prevNode = Some 3, fCost = 200, gCost = 200, hCost = 0,
             selectedNetpoint = (30, 0)\<rparr>,
            \<lparr>index = 3, prevNode = Some 4, fCost = 20, gCost = 20, hCost = 0,
             selectedNetpoint = (20, 0)\<rparr>,
            \<lparr>index = 2, prevNode = Some 1, fCost = 10, gCost = 10, hCost = 0,
             selectedNetpoint = (10, 0)\<rparr>]\<rparr>,
      openNodes = [(3, 100), (4, 200)]\<rparr>"

definition exCachedPath :: IPath where
  "exCachedPath =
     \<lparr>pathID = 7, points = [(30, 0, 30), (64, 0, 32), (100, 0, 32)],
      boundingBoxMins = (0, 0, 0), boundingBoxMaxs = (0, 0, 0),
      hasFullPath = False, hasPartialPath = True\<rparr>"

subsection \<open>The relaxation rule\<close>





section \<open>Properties\<close>

subsection \<open>The sparse node registry\<close>

lemma wfS_Reset: "wfS (Reset d sp n)"
  by (simp add: wfS_def Reset_def list_all_iff)

lemma touch_negative:
  "wfS sp \<Longrightarrow> k < 0 \<Longrightarrow> InsertINodeIfNotPresent mk sp k = Some (0, sp)"
  by (simp add: InsertINodeIfNotPresent_def wfS_def)

lemma touch_fresh:
  assumes "wfS sp" "0 \<le> k" "k < int (length (sparseIndex sp))" "sparseIndex sp ! nat k = 0"
  shows "InsertINodeIfNotPresent mk sp k =
     Some (length (denseData sp),
           sp\<lparr>denseData := denseData sp @ [mk k],
              sparseIndex := (sparseIndex sp)[nat k := length (denseData sp)]\<rparr>)"
  using assms
  by (simp add: InsertINodeIfNotPresent_def InsertAtIndex_def slotOf_def Let_def)

lemma touch_present:
  assumes "wfS sp" "0 \<le> k" "k < int (length (sparseIndex sp))" "sparseIndex sp ! nat k \<noteq> 0"
  shows "InsertINodeIfNotPresent mk sp k = Some (sparseIndex sp ! nat k, sp)"
  using assms
  by (auto simp add: InsertINodeIfNotPresent_def slotOf_def wfS_def list_all_length)

lemma touch_step:
  assumes "wfS sp" "0 \<le> k" "k < int (length (sparseIndex sp))"
  shows "\<exists>slot sp'. InsertINodeIfNotPresent mk sp k = Some (slot, sp') \<and> wfS sp' \<and>
           length (sparseIndex sp') = length (sparseIndex sp) \<and>
           (\<exists>ys. denseData sp' = denseData sp @ ys) \<and>
           (\<forall>i. sparseIndex sp ! i \<noteq> 0 \<longrightarrow> sparseIndex sp' ! i = sparseIndex sp ! i) \<and>
           (\<forall>i. i \<noteq> nat k \<longrightarrow> sparseIndex sp' ! i = sparseIndex sp ! i) \<and>
           sparseIndex sp' ! nat k \<noteq> 0"
proof (cases "sparseIndex sp ! nat k = 0")
  case True
  from touch_fresh [OF assms True, of mk] assms True show ?thesis
    apply (simp add: wfS_def list_all_length nth_list_update)
    by (metis less_SucI)
next
  case False
  from touch_present [OF assms False, of mk] assms False show ?thesis by simp
qed

lemma touchAll_inv:
  assumes "wfS sp" "\<forall>i\<in>set ids. 0 \<le> i \<and> i < int (length (sparseIndex sp))"
  shows "\<exists>sp'. touchAll mk sp ids = Some sp' \<and> wfS sp' \<and>
           length (sparseIndex sp') = length (sparseIndex sp) \<and>
           (\<exists>ys. denseData sp' = denseData sp @ ys) \<and>
           (\<forall>i. sparseIndex sp ! i \<noteq> 0 \<longrightarrow> sparseIndex sp' ! i = sparseIndex sp ! i) \<and>
           (\<forall>i. int i \<notin> set ids \<longrightarrow> sparseIndex sp' ! i = sparseIndex sp ! i)"
  using assms
proof (induction ids arbitrary: sp)
  case Nil
  then show ?case by simp
next
  case (Cons k ids)
  from Cons.prems have k: "0 \<le> k" "k < int (length (sparseIndex sp))" by simp_all
  from touch_step [OF Cons.prems(1) k, of mk] obtain slot sp1 where
    s: "InsertINodeIfNotPresent mk sp k = Some (slot, sp1)" "wfS sp1"
       "length (sparseIndex sp1) = length (sparseIndex sp)"
       "\<exists>ys. denseData sp1 = denseData sp @ ys"
       "\<forall>i. sparseIndex sp ! i \<noteq> 0 \<longrightarrow> sparseIndex sp1 ! i = sparseIndex sp ! i"
       "\<forall>i. i \<noteq> nat k \<longrightarrow> sparseIndex sp1 ! i = sparseIndex sp ! i"
    by blast
  from Cons.prems s(3) have "\<forall>i\<in>set ids. 0 \<le> i \<and> i < int (length (sparseIndex sp1))" by simp
  from Cons.IH [OF s(2) this] obtain sp' where
    t: "touchAll mk sp1 ids = Some sp'" "wfS sp'"
       "length (sparseIndex sp') = length (sparseIndex sp1)"
       "\<exists>ys. denseData sp' = denseData sp1 @ ys"
       "\<forall>i. sparseIndex sp1 ! i \<noteq> 0 \<longrightarrow> sparseIndex sp' ! i = sparseIndex sp1 ! i"
       "\<forall>i. int i \<notin> set ids \<longrightarrow> sparseIndex sp' ! i = sparseIndex sp1 ! i"
    by blast
  have "\<forall>i. int i \<notin> set (k # ids) \<longrightarrow> sparseIndex sp' ! i = sparseIndex sp ! i"
    using s(6) t(6) k by auto
  with s t show ?case by (auto simp: s(1))
qed

text \<open>
  Claim C7. After \<^verbatim>\<open>Reset(n)\<close> the index table holds the unset sentinel 0 for
  every identifier and the backing store is the one dummy record. From there, after
  any insert-or-fetch calls \<open>ids1\<close> on identifiers of the table, the first touch of
  an identifier \<open>k\<close> of the table that is not among them appends a record for
  \<open>k\<close> and returns its new slot; after any further calls \<open>ids2\<close>, touching
  \<open>k\<close> again returns that same slot and leaves the registry as it is, the slot
  still holds the record, slot zero still holds the dummy, and a negative identifier
  gets slot zero.
\<close>

theorem sparse_registry_insert_or_fetch:
  assumes r1: "\<forall>i\<in>set ids1. 0 \<le> i \<and> i < int n"
      and r2: "\<forall>i\<in>set ids2. 0 \<le> i \<and> i < int n"
      and k: "0 \<le> k" "k < int n" "k \<notin> set ids1"
  shows "sparseIndex (Reset d sp0 n) = replicate n 0 \<and>
         denseData (Reset d sp0 n) = [d] \<and>
         (\<exists>sp1 sp2 sp3.
            touchAll mk (Reset d sp0 n) ids1 = Some sp1 \<and>
            InsertINodeIfNotPresent mk sp1 k = Some (length (denseData sp1), sp2) \<and>
            denseData sp2 = denseData sp1 @ [mk k] \<and>
            touchAll mk sp2 ids2 = Some sp3 \<and>
            InsertINodeIfNotPresent mk sp3 k = Some (length (denseData sp1), sp3) \<and>
            denseData sp3 ! length (denseData sp1) = mk k \<and>
            denseData sp3 ! 0 = d \<and>
            (\<forall>j<0. InsertINodeIfNotPresent mk sp3 j = Some (0, sp3)))"
proof -
  let ?r = "Reset d sp0 n"
  have len: "length (sparseIndex ?r) = n" by (simp add: Reset_def)
  from r1 len have "\<forall>i\<in>set ids1. 0 \<le> i \<and> i < int (length (sparseIndex ?r))" by simp
  from touchAll_inv [OF wfS_Reset this, of mk] obtain sp1 where
    a: "touchAll mk ?r ids1 = Some sp1" "wfS sp1" "length (sparseIndex sp1) = n"
       "\<exists>ys. denseData sp1 = denseData ?r @ ys"
       "\<forall>i. int i \<notin> set ids1 \<longrightarrow> sparseIndex sp1 ! i = sparseIndex ?r ! i"
    using len by auto
  from a(5) k have z: "sparseIndex sp1 ! nat k = 0" by (simp add: Reset_def)
  define sp2 where "sp2 = sp1\<lparr>denseData := denseData sp1 @ [mk k],
      sparseIndex := (sparseIndex sp1)[nat k := length (denseData sp1)]\<rparr>"
  from k a(3) have kr: "k < int (length (sparseIndex sp1))" by simp
  have b: "InsertINodeIfNotPresent mk sp1 k = Some (length (denseData sp1), sp2)"
    unfolding sp2_def by (rule touch_fresh [OF a(2) k(1) kr z])
  from touch_step [OF a(2) k(1) kr, of mk] b have w2: "wfS sp2" by auto
  have l2: "length (sparseIndex sp2) = n" by (simp add: sp2_def a(3))
  have s2: "sparseIndex sp2 ! nat k = length (denseData sp1)"
    using kr k(1) by (simp add: sp2_def)
  from a(2) have pos: "length (denseData sp1) \<noteq> 0" by (simp add: wfS_def)
  from r2 l2 have "\<forall>i\<in>set ids2. 0 \<le> i \<and> i < int (length (sparseIndex sp2))" by simp
  from touchAll_inv [OF w2 this, of mk] obtain sp3 where
    c: "touchAll mk sp2 ids2 = Some sp3" "wfS sp3" "length (sparseIndex sp3) = n"
       "\<exists>ys. denseData sp3 = denseData sp2 @ ys"
       "\<forall>i. sparseIndex sp2 ! i \<noteq> 0 \<longrightarrow> sparseIndex sp3 ! i = sparseIndex sp2 ! i"
    using l2 by auto
  from c(5) s2 pos have s3: "sparseIndex sp3 ! nat k = length (denseData sp1)" by simp
  from k c(3) have kr3: "k < int (length (sparseIndex sp3))" by simp
  from s3 pos have nz: "sparseIndex sp3 ! nat k \<noteq> 0" by simp
  have e: "InsertINodeIfNotPresent mk sp3 k = Some (length (denseData sp1), sp3)"
    using touch_present [OF c(2) k(1) kr3 nz, of mk] s3 by simp
  from c(4) have f: "denseData sp3 ! length (denseData sp1) = mk k"
    by (auto simp: sp2_def nth_append)
  from a(4) c(4) have g: "denseData sp3 ! 0 = d"
    by (auto simp: sp2_def Reset_def)
  have h: "\<forall>j<0. InsertINodeIfNotPresent mk sp3 j = Some (0, sp3)"
    using touch_negative [OF c(2)] by blast
  have "denseData sp2 = denseData sp1 @ [mk k]" by (simp add: sp2_def)
  with a(1) b c(1) e f g h show ?thesis
    by (simp add: Reset_def)
qed

theorem sparse_registry_insert_or_fetch_witness:
  "sparseIndex (Reset (0::int) \<lparr>sparseIndex = [], denseData = []\<rparr> 4) = replicate 4 0 \<and>
   denseData (Reset (0::int) \<lparr>sparseIndex = [], denseData = []\<rparr> 4) = [0] \<and>
   (\<exists>sp1 sp2 sp3.
      touchAll (\<lambda>i. i + 100) (Reset (0::int) \<lparr>sparseIndex = [], denseData = []\<rparr> 4) [3, 1, 3] = Some sp1 \<and>
      InsertINodeIfNotPresent (\<lambda>i. i + 100) sp1 2 = Some (3, sp2) \<and>
      denseData sp2 = [0, 103, 101, 102] \<and>
      touchAll (\<lambda>i. i + 100) sp2 [0, 2, 1] = Some sp3 \<and>
      InsertINodeIfNotPresent (\<lambda>i. i + 100) sp3 2 = Some (3, sp3) \<and>
      denseData sp3 = [0, 103, 101, 102, 100] \<and>
      InsertINodeIfNotPresent (\<lambda>i. i + 100) sp3 (-1) = Some (0, sp3))"
proof -
  have t1: "touchAll (\<lambda>i. i + 100) (Reset (0::int) \<lparr>sparseIndex = [], denseData = []\<rparr> 4) [3, 1, 3]
      = Some \<lparr>sparseIndex = [0, 2, 0, 1], denseData = [0, 103, 101]\<rparr>"
    by (simp add: Reset_def InsertINodeIfNotPresent_def InsertAtIndex_def slotOf_def Let_def numeral_eq_Suc)
  have "(\<forall>i\<in>set [3, 1, 3::int]. 0 \<le> i \<and> i < int 4) \<and> (\<forall>i\<in>set [0, 2, 1::int]. 0 \<le> i \<and> i < int 4)
     \<and> (0::int) \<le> 2 \<and> (2::int) < int 4 \<and> (2::int) \<notin> set [3, 1, 3]" by simp
  then obtain sp1 sp2 sp3 where
    w: "touchAll (\<lambda>i. i + 100) (Reset (0::int) \<lparr>sparseIndex = [], denseData = []\<rparr> 4) [3, 1, 3] = Some sp1"
       "InsertINodeIfNotPresent (\<lambda>i. i + 100) sp1 2 = Some (length (denseData sp1), sp2)"
       "denseData sp2 = denseData sp1 @ [2 + 100]"
       "touchAll (\<lambda>i. i + 100) sp2 [0, 2, 1] = Some sp3"
       "InsertINodeIfNotPresent (\<lambda>i. i + 100) sp3 2 = Some (length (denseData sp1), sp3)"
       "\<forall>j<0. InsertINodeIfNotPresent (\<lambda>i. i + 100) sp3 j = Some (0, sp3)"
    using sparse_registry_insert_or_fetch [of "[3, 1, 3]" 4 "[0, 2, 1]" 2 0 "\<lparr>sparseIndex = [], denseData = []\<rparr>" "\<lambda>i. i + 100"]
    by auto
  from w(1) t1 have sp1: "sp1 = \<lparr>sparseIndex = [0, 2, 0, 1], denseData = [0, 103, 101]\<rparr>" by simp
  from w(2) sp1 have sp2: "sp2 = \<lparr>sparseIndex = [0, 2, 3, 1], denseData = [0, 103, 101, 102]\<rparr>"
    by (simp add: InsertINodeIfNotPresent_def InsertAtIndex_def slotOf_def Let_def numeral_eq_Suc)
  from w(4) sp2 have sp3: "sp3 = \<lparr>sparseIndex = [4, 2, 3, 1], denseData = [0, 103, 101, 102, 100]\<rparr>"
    by (simp add: InsertINodeIfNotPresent_def InsertAtIndex_def slotOf_def Let_def numeral_eq_Suc)
  from w(6) have neg: "InsertINodeIfNotPresent (\<lambda>i. i + 100) sp3 (-1) = Some (0, sp3)" by simp
  show ?thesis
    using w(1,2,4,5) neg sp1 sp2 sp3 by (simp add: Reset_def)
qed

subsection \<open>The sharing key\<close>

lemma GetNextBitShift_loop_zero: "GetNextBitShift_loop n 0 = 0"
proof (induction n "0::int" rule: GetNextBitShift_loop.induct)
  case (1 n)
  show ?case
    by (subst GetNextBitShift_loop.simps) (simp add: 1)
qed

lemma GetNextBitShift_one: "GetNextBitShift n = 1"
  by (simp add: GetNextBitShift_def GetNextBitShift_loop_zero)

lemma hashLoop_foldl:
  "hashLoop maxSize rootMask srcX srcZ nodeSize xoff zoff num =
     foldl (childOf rootMask) num (quadrantChoices maxSize srcX srcZ nodeSize xoff zoff)"
proof (induction maxSize rootMask srcX srcZ nodeSize xoff zoff num rule: hashLoop.induct)
  case (1 maxSize rootMask srcX srcZ nodeSize xoff zoff num)
  show ?case
  proof (cases "nodeSize > maxSize")
    case True
    define half where "half = drop_bit 1 nodeSize"
    define isRight where "isRight = (srcX \<ge> xoff + half)"
    define isDown where "isDown = (srcZ \<ge> zoff + half)"
    have x: "xoff + half * (if isRight then 1 else 0) = (if isRight then xoff + half else xoff)"
      and z: "zoff + half * (if isDown then 1 else 0) = (if isDown then zoff + half else zoff)"
      by simp_all
    have q: "quadrantChoices maxSize srcX srcZ nodeSize xoff zoff =
        (isRight, isDown) # quadrantChoices maxSize srcX srcZ half
          (if isRight then xoff + half else xoff) (if isDown then zoff + half else zoff)"
      by (subst quadrantChoices.simps)
         (simp add: True Let_def half_def isRight_def isDown_def)
    have h: "hashLoop maxSize rootMask srcX srcZ nodeSize xoff zoff num =
        hashLoop maxSize rootMask srcX srcZ half
          (xoff + half * (if isRight then 1 else 0)) (zoff + half * (if isDown then 1 else 0))
          (childOf rootMask num (isRight, isDown))"
      by (subst hashLoop.simps)
         (simp add: True Let_def half_def isRight_def isDown_def childOf_def)
    have ih: "hashLoop maxSize rootMask srcX srcZ half
          (xoff + half * (if isRight then 1 else 0)) (zoff + half * (if isDown then 1 else 0))
          (childOf rootMask num (isRight, isDown)) =
        foldl (childOf rootMask) (childOf rootMask num (isRight, isDown))
          (quadrantChoices maxSize srcX srcZ half
            (xoff + half * (if isRight then 1 else 0)) (zoff + half * (if isDown then 1 else 0)))"
      using 1 [OF True refl refl refl refl refl]
      unfolding half_def isRight_def isDown_def childOf_def fst_conv snd_conv .
    have "foldl (childOf rootMask) num (quadrantChoices maxSize srcX srcZ nodeSize xoff zoff) =
        foldl (childOf rootMask) (childOf rootMask num (isRight, isDown))
          (quadrantChoices maxSize srcX srcZ half
            (xoff + half * (if isRight then 1 else 0)) (zoff + half * (if isDown then 1 else 0)))"
      by (simp only: q x z foldl_Cons)
    with h ih show ?thesis by (simp only:)
  next
    case False
    have "hashLoop maxSize rootMask srcX srcZ nodeSize xoff zoff num = num"
      by (subst hashLoop.simps) (simp add: False)
    moreover have "quadrantChoices maxSize srcX srcZ nodeSize xoff zoff = []"
      by (subst quadrantChoices.simps) (simp add: False)
    ultimately show ?thesis by simp
  qed
qed

lemma GenerateHash_shareable:
  "GenerateHash cfg L s srcNode tgtNode \<noteq> BAD_HASH cfg \<Longrightarrow>
   GenerateHash cfg L s srcNode tgtNode =
     GenerateHash2 cfg L
       (hashLoop (QTPFS_SHARE_PATH_MAX_SIZE cfg) (GetRootMask L)
          (word_of_int (toSquare cfg (fst (srcPoint s))))
          (word_of_int (toSquare cfg (snd (snd (srcPoint s)))))
          (xsize srcNode) (xmin srcNode) (zmin srcNode) (GetNodeNumber srcNode))
       (GetNodeNumber tgtNode)"
  by (simp add: GenerateHash_def Let_def GetNextBitShift_one split: if_splits)

text \<open>
  Claim C5, the footprint case. \<^verbatim>\<open>GetNextBitShift\<close> starts its counter at 0 and
  doubles it, so it returns 1 for every footprint and the bucket \<^verbatim>\<open>1 << shift\<close> is
  always 2. A request with footprint 100, far above the maximum shareable size 16,
  on a node of size 64 gets an ordinary key, not the sentinel.
\<close>

theorem GenerateHash_oversized_footprint_shared:
  "GetNextBitShift n = 1 \<and>
   footprint (exHashLayer 100) = 100 \<and>
   QTPFS_SHARE_PATH_MAX_SIZE exConfig = 16 \<and>
   GetNextBitShift (footprint (exHashLayer 100)) = 1 \<and>
   BAD_HASH exConfig = 18446744073709551615 \<and>
   GenerateHash exConfig (exHashLayer 100) (exRequest (321, 0, 80) (500, 0, 500))
     (exNode 1 0x01000001) (exNode 7 0x01000007) = 68769837081"
proof -
  have "footprint (exHashLayer 100) = 100 \<and>
     QTPFS_SHARE_PATH_MAX_SIZE exConfig = 16 \<and>
     BAD_HASH exConfig = 18446744073709551615 \<and>
     GenerateHash exConfig (exHashLayer 100) (exRequest (321, 0, 80) (500, 0, 500))
       (exNode 1 0x01000001) (exNode 7 0x01000007) = 68769837081"
    by code_simp
  then show ?thesis by (simp add: GetNextBitShift_one)
qed

text \<open>
  Claim C6. Two requests that get a key other than the sentinel, on the same layer,
  from the same coarse source node, to target nodes of the same node number, and
  whose source squares make the same quadrant choice at every step of the descent,
  get the same key; the key is the normalized source number plus the target number
  times the map area plus the layer index times the map area squared, in 64-bit
  arithmetic.
\<close>

theorem sharing_key_stable:
  assumes "GenerateHash cfg L s1 srcNode tgtNode1 \<noteq> BAD_HASH cfg"
      and "GenerateHash cfg L s2 srcNode tgtNode2 \<noteq> BAD_HASH cfg"
      and "GetNodeNumber tgtNode1 = GetNodeNumber tgtNode2"
      and "quadrantChoices (QTPFS_SHARE_PATH_MAX_SIZE cfg)
             (word_of_int (toSquare cfg (fst (srcPoint s1))))
             (word_of_int (toSquare cfg (snd (snd (srcPoint s1)))))
             (xsize srcNode) (xmin srcNode) (zmin srcNode) =
           quadrantChoices (QTPFS_SHARE_PATH_MAX_SIZE cfg)
             (word_of_int (toSquare cfg (fst (srcPoint s2))))
             (word_of_int (toSquare cfg (snd (snd (srcPoint s2)))))
             (xsize srcNode) (xmin srcNode) (zmin srcNode)"
  shows "GenerateHash cfg L s1 srcNode tgtNode1 = GenerateHash cfg L s2 srcNode tgtNode2 \<and>
         GenerateHash cfg L s1 srcNode tgtNode1 =
           ucast (foldl (childOf (GetRootMask L)) (GetNodeNumber srcNode)
                    (quadrantChoices (QTPFS_SHARE_PATH_MAX_SIZE cfg)
                       (word_of_int (toSquare cfg (fst (srcPoint s1))))
                       (word_of_int (toSquare cfg (snd (snd (srcPoint s1)))))
                       (xsize srcNode) (xmin srcNode) (zmin srcNode)))
           + ucast (GetNodeNumber tgtNode1) * scast (mapx cfg * mapy cfg)
           + ucast (GetNodelayer L) * scast (mapx cfg * mapy cfg) * scast (mapx cfg * mapy cfg)"
  using assms(3,4)
  by (simp add: GenerateHash_shareable [OF assms(1)] GenerateHash_shareable [OF assms(2)]
        hashLoop_foldl GenerateHash2_def Let_def)

theorem sharing_key_stable_witness:
  "GenerateHash exConfig (exHashLayer 4) (exRequest (321, 0, 80) (500, 0, 500))
     (exNode 1 0x01000001) (exNode 7 0x01000007) = 68769837081 \<and>
   GenerateHash exConfig (exHashLayer 4) (exRequest (300, 0, 100) (500, 0, 500))
     (exNode 1 0x01000001) (exNode 7 0x01000007) = 68769837081 \<and>
   (68769837081 :: 64 word) = 16777241 + 16777223 * 4096 + 2 * 4096 * 4096 \<and>
   quadrantChoices 16 40 10 64 0 0 = [(True, False), (False, False)] \<and>
   quadrantChoices 16 37 12 64 0 0 = [(True, False), (False, False)]"
proof -
  have h1: "GenerateHash exConfig (exHashLayer 4) (exRequest (321, 0, 80) (500, 0, 500))
     (exNode 1 0x01000001) (exNode 7 0x01000007) = 68769837081" by code_simp
  have h2: "GenerateHash exConfig (exHashLayer 4) (exRequest (300, 0, 100) (500, 0, 500))
     (exNode 1 0x01000001) (exNode 7 0x01000007) = 68769837081" by code_simp
  have b: "BAD_HASH exConfig = 18446744073709551615" by code_simp
  have q1: "quadrantChoices 16 40 10 64 0 0 = [(True, False), (False, False)]" by code_simp
  have q2: "quadrantChoices 16 37 12 64 0 0 = [(True, False), (False, False)]" by code_simp
  have sq: "word_of_int (toSquare exConfig (fst (srcPoint (exRequest (321, 0, 80) (500, 0, 500))))) = (40 :: 32 word)"
      "word_of_int (toSquare exConfig (snd (snd (srcPoint (exRequest (321, 0, 80) (500, 0, 500)))))) = (10 :: 32 word)"
      "word_of_int (toSquare exConfig (fst (srcPoint (exRequest (300, 0, 100) (500, 0, 500))))) = (37 :: 32 word)"
      "word_of_int (toSquare exConfig (snd (snd (srcPoint (exRequest (300, 0, 100) (500, 0, 500)))))) = (12 :: 32 word)"
    by code_simp+
  have p: "QTPFS_SHARE_PATH_MAX_SIZE exConfig = 16" "xsize (exNode 1 0x01000001) = 64"
      "xmin (exNode 1 0x01000001) = 0" "zmin (exNode 1 0x01000001) = 0"
    by (simp_all add: exConfig_def exNode_def)
  have a1: "GenerateHash exConfig (exHashLayer 4) (exRequest (321, 0, 80) (500, 0, 500))
     (exNode 1 0x01000001) (exNode 7 0x01000007) \<noteq> BAD_HASH exConfig"
    unfolding h1 b by simp
  have a2: "GenerateHash exConfig (exHashLayer 4) (exRequest (300, 0, 100) (500, 0, 500))
     (exNode 1 0x01000001) (exNode 7 0x01000007) \<noteq> BAD_HASH exConfig"
    unfolding h2 b by simp
  have a3: "GetNodeNumber (exNode 7 0x01000007) = GetNodeNumber (exNode 7 0x01000007)" by simp
  have a4: "quadrantChoices (QTPFS_SHARE_PATH_MAX_SIZE exConfig)
             (word_of_int (toSquare exConfig (fst (srcPoint (exRequest (321, 0, 80) (500, 0, 500))))))
             (word_of_int (toSquare exConfig (snd (snd (srcPoint (exRequest (321, 0, 80) (500, 0, 500)))))))
             (xsize (exNode 1 0x01000001)) (xmin (exNode 1 0x01000001)) (zmin (exNode 1 0x01000001)) =
           quadrantChoices (QTPFS_SHARE_PATH_MAX_SIZE exConfig)
             (word_of_int (toSquare exConfig (fst (srcPoint (exRequest (300, 0, 100) (500, 0, 500))))))
             (word_of_int (toSquare exConfig (snd (snd (srcPoint (exRequest (300, 0, 100) (500, 0, 500)))))))
             (xsize (exNode 1 0x01000001)) (xmin (exNode 1 0x01000001)) (zmin (exNode 1 0x01000001))"
    unfolding sq p q1 q2 ..
  from sharing_key_stable [OF a1 a2 a3 a4]
  have "GenerateHash exConfig (exHashLayer 4) (exRequest (321, 0, 80) (500, 0, 500))
     (exNode 1 0x01000001) (exNode 7 0x01000007) =
     GenerateHash exConfig (exHashLayer 4) (exRequest (300, 0, 100) (500, 0, 500))
     (exNode 1 0x01000001) (exNode 7 0x01000007)" by blast
  with h1 q1 q2 show ?thesis by simp
qed

subsection \<open>The distance of the examples\<close>

text \<open>
  \<open>isqrt\<close> is the integer square root, and \<open>exDistance\<close> is the exact Euclidean
  distance between two points with integer x coordinates that differ in x only.
\<close>

lemma isqrt_bounds:
  "0 \<le> n \<Longrightarrow> 0 \<le> isqrt n \<and> isqrt n * isqrt n \<le> n \<and> n < (isqrt n + 1) * (isqrt n + 1)"
proof (induction n rule: isqrt.induct)
  case (1 n)
  show ?case
  proof (cases "n < 1")
    case True
    with 1(2) have "n = 0" by simp
    have "isqrt 0 = 0" by (subst isqrt.simps) simp
    with \<open>n = 0\<close> show ?thesis by simp
  next
    case False
    define r0 where "r0 = isqrt (n div 4)"
    from False have "0 \<le> n div 4" by simp
    from 1(1) [OF False this] have
      ih: "0 \<le> r0" "r0 * r0 \<le> n div 4" "n div 4 < (r0 + 1) * (r0 + 1)"
      by (simp_all add: r0_def)
    have d: "4 * (n div 4) \<le> n" "n < 4 * (n div 4) + 4" by simp_all
    from ih(2) d(1) have lo: "(2 * r0) * (2 * r0) \<le> n" by (simp add: algebra_simps)
    from ih(3) have "n div 4 + 1 \<le> (r0 + 1) * (r0 + 1)" by simp
    then have "4 * (n div 4) + 4 \<le> (2 * r0 + 2) * (2 * r0 + 2)" by (simp add: algebra_simps)
    with d(2) have hi: "n < (2 * r0 + 2) * (2 * r0 + 2)" by simp
    have e: "isqrt n = (if (2 * r0 + 1) * (2 * r0 + 1) \<le> n then 2 * r0 + 1 else 2 * r0)"
      using False by (subst isqrt.simps) (simp add: Let_def r0_def)
    show ?thesis
    proof (cases "(2 * r0 + 1) * (2 * r0 + 1) \<le> n")
      case True
      with e hi ih(1) show ?thesis by (simp add: algebra_simps)
    next
      case False
      with e lo ih(1) show ?thesis by (simp add: algebra_simps)
    qed
  qed
qed

lemma isqrt_square:
  assumes "0 \<le> m"
  shows "isqrt (m * m) = m"
proof -
  from assms have "0 \<le> m * m" by simp
  from isqrt_bounds [OF this] have
    b: "0 \<le> isqrt (m * m)" "isqrt (m * m) * isqrt (m * m) \<le> m * m"
       "m * m < (isqrt (m * m) + 1) * (isqrt (m * m) + 1)"
    by simp_all
  have "isqrt (m * m) \<le> m"
  proof (rule ccontr)
    assume "\<not> isqrt (m * m) \<le> m"
    then have "m < isqrt (m * m)" by simp
    with assms have "m * m < isqrt (m * m) * isqrt (m * m)"
      by (intro mult_strict_mono') simp_all
    with b(2) show False by simp
  qed
  moreover have "m \<le> isqrt (m * m)"
  proof (rule ccontr)
    assume "\<not> m \<le> isqrt (m * m)"
    then have "isqrt (m * m) + 1 \<le> m" by simp
    with b(1) have "(isqrt (m * m) + 1) * (isqrt (m * m) + 1) \<le> m * m"
      by (intro mult_mono) simp_all
    with b(3) show False by simp
  qed
  ultimately show ?thesis by simp
qed

lemma exDistance_axis:
  "exDistance (of_int a, y, z) (of_int b, y, z) = of_int \<bar>a - b\<bar>"
proof -
  define d where "d = \<bar>a - b\<bar>"
  have d0: "0 \<le> d * 1024" by (simp add: d_def)
  have "(of_int a - of_int b :: rat) * (of_int a - of_int b) = of_int ((a - b) * (a - b))"
    by simp
  also have "(a - b) * (a - b) = d * d" by (simp add: d_def)
  finally have sq: "(of_int a - of_int b :: rat) * (of_int a - of_int b) = of_int (d * d)" .
  have "(of_int (d * d) :: rat) * 2 ^ 20 = of_int ((d * 1024) * (d * 1024))" by simp
  then have fl: "\<lfloor>(of_int (d * d) :: rat) * 2 ^ 20\<rfloor> = (d * 1024) * (d * 1024)"
    by (simp only: floor_of_int)
  have "exDistance (of_int a, y, z) (of_int b, y, z) =
      of_int (isqrt \<lfloor>(of_int (d * d) :: rat) * 2 ^ 20\<rfloor>) / 2 ^ 10"
    unfolding exDistance_def Let_def fst_conv snd_conv sq by simp
  also have "\<dots> = of_int (d * 1024) / 2 ^ 10"
    unfolding fl isqrt_square [OF d0] ..
  also have "\<dots> = of_int d" by simp
  finally show ?thesis by (simp only: d_def)
qed

subsection \<open>The open list\<close>



lemma qPush_Nil: "qPush e [] = [e]"
  by (simp add: qPush_def gnu_push_heap.simps)

lemma open_list_ties:
  "map fst (foldl (\<lambda>q e. qPush e q) [] [(1, 5), (2, 5), (3, 5), (4, 5), (5, 5)]) = [1, 2, 3, 4, 5] \<and>
   map (\<lambda>k. fst (qTop ((qPop ^^ k) [(1, 5), (2, 5), (3, 5), (4, 5), (5, 5)]))) [0, 1, 2, 3, 4]
     = [1, 3, 5, 2, 4]"
  by code_simp

subsection \<open>What the search leaves unchanged\<close>

lemma netPointStep_keeps:
  assumes "netPointStep cfg L cn cp i nid it j sn = Some sn'"
  shows "fixedPart (fst sn') = fixedPart (fst sn) \<and> walkPart (fst sn') = walkPart (fst sn) \<and>
         allSearchedNodes (fst sn') = allSearchedNodes (fst sn) \<and>
         openNodes (fst sn') = openNodes (fst sn) \<and>
         nextSearchNode (fst sn') = nextSearchNode (fst sn)"
  using assms
  by (auto simp: netPointStep_def Let_def fixedPart_def walkPart_def
           split: Option.bind_splits if_splits)

lemma netPointLoop_keeps:
  assumes "netPointLoop cfg L cn cp i nid it js sn = Some sn'"
  shows "fixedPart (fst sn') = fixedPart (fst sn) \<and> walkPart (fst sn') = walkPart (fst sn) \<and>
         allSearchedNodes (fst sn') = allSearchedNodes (fst sn) \<and>
         openNodes (fst sn') = openNodes (fst sn) \<and>
         nextSearchNode (fst sn') = nextSearchNode (fst sn)"
  using assms
proof (induction js arbitrary: sn)
  case Nil
  then show ?case by simp
next
  case (Cons j js)
  from Cons.prems obtain sn1 where
    a: "netPointStep cfg L cn cp i nid it j sn = Some sn1"
    and b: "netPointLoop cfg L cn cp i nid it js sn1 = Some sn'"
    by (auto split: option.splits)
  from netPointStep_keeps [OF a] Cons.IH [OF b] show ?case by simp
qed

lemma evalNeighbor_keeps:
  assumes "evalNeighbor cfg L cn cp i s = Some (s1, k)"
  shows "fixedPart s1 = fixedPart s \<and> walkPart s1 = walkPart s \<and> openNodes s1 = openNodes s"
proof -
  from assms obtain slot reg where
    l: "netPointLoop cfg L cn cp i (GetNeighbors cn ! i)
          (slot = tgtSearchNode s) [0..<QTPFS_MAX_NETPOINTS_PER_NODE_EDGE cfg]
          (s\<lparr>allSearchedNodes := reg, nextSearchNode := Some slot\<rparr>, 0) = Some (s1, k)"
    by (auto simp: evalNeighbor_def Let_def split: if_splits Option.bind_splits)
  from netPointLoop_keeps [OF l] show ?thesis
    by (simp add: fixedPart_def walkPart_def)
qed

lemma UpdateNode_keeps:
  assumes "UpdateNode s nxt prv k = Some s'"
  shows "fixedPart s' = fixedPart s \<and> walkPart s' = walkPart s \<and> openNodes s' = openNodes s \<and>
         nextSearchNode s' = nextSearchNode s"
  using assms
  by (auto simp: UpdateNode_def putNode_def fixedPart_def walkPart_def
           split: Option.bind_splits if_splits)

lemma relax_keeps:
  assumes "relax s k = Some s'"
  shows "fixedPart s' = fixedPart s \<and> walkPart s' = walkPart s"
  using assms
  by (auto simp: relax_def fixedPart_def walkPart_def
           split: Option.bind_splits if_splits dest!: UpdateNode_keeps)

lemma neighborStep_keeps:
  assumes "neighborStep cfg L cn cp i s = Some s'"
  shows "fixedPart s' = fixedPart s \<and> walkPart s' = walkPart s"
proof -
  from assms obtain s1 k where a: "evalNeighbor cfg L cn cp i s = Some (s1, k)"
    and b: "relax s1 k = Some s'"
    by (auto simp: neighborStep_def split: Option.bind_splits)
  from evalNeighbor_keeps [OF a] relax_keeps [OF b] show ?thesis by simp
qed

lemma neighborLoop_keeps:
  assumes "neighborLoop cfg L cn cp is s = Some s'"
  shows "fixedPart s' = fixedPart s \<and> walkPart s' = walkPart s"
  using assms
proof (induction "is" arbitrary: s)
  case Nil
  then show ?case by simp
next
  case (Cons i "is")
  from Cons.prems obtain s1 where a: "neighborStep cfg L cn cp i s = Some s1"
    and b: "neighborLoop cfg L cn cp is s1 = Some s'"
    by (auto split: option.splits)
  from neighborStep_keeps [OF a] Cons.IH [OF b] show ?case by simp
qed

lemma IterateNodeNeighbors_keeps:
  assumes "IterateNodeNeighbors cfg L cn s = Some s'"
  shows "fixedPart s' = fixedPart s \<and> walkPart s' = walkPart s"
  using assms
  by (auto simp: IterateNodeNeighbors_def split: Option.bind_splits dest: neighborLoop_keeps)

lemma IterateNodes_fixed:
  assumes "IterateNodes cfg L s = Some s'"
  shows "fixedPart s' = fixedPart s"
  using assms
  by (auto simp: IterateNodes_def Let_def fixedPart_def
           split: Option.bind_splits if_splits dest!: IterateNodeNeighbors_keeps)

subsection \<open>The outcome flags\<close>

lemma searchLoop_result:
  assumes "searchLoop cfg L s = Some s'"
  shows "fixedPart s' = fixedPart s \<and> openNodes s' = [] \<and>
         (openNodes s = [] \<longrightarrow> s' = s) \<and>
         (openNodes s \<noteq> [] \<longrightarrow>
            haveFullPath s' = (curSearchNode s' = Some (tgtSearchNode s')))"
proof (rule searchLoop.raw_induct [where P = "\<lambda>cfg L s s'.
         fixedPart s' = fixedPart s \<and> openNodes s' = [] \<and>
         (openNodes s = [] \<longrightarrow> s' = s) \<and>
         (openNodes s \<noteq> [] \<longrightarrow>
            haveFullPath s' = (curSearchNode s' = Some (tgtSearchNode s')))", OF _ assms],
       goal_cases)
  case (1 loop cfg L s s')
  show ?case
  proof (cases "openNodes s = []")
    case True
    with 1(2) show ?thesis by simp
  next
    case False
    with 1(2) obtain s1 where
      it: "IterateNodes cfg L s = Some s1"
      and rec: "loop cfg L (if curSearchNode s1 = Some (tgtSearchNode s1)
                  then ResetQueue (s1\<lparr>haveFullPath := True\<rparr>)
                  else s1\<lparr>haveFullPath := False\<rparr>) = Some s'"
      by (auto split: option.splits)
    let ?n = "if curSearchNode s1 = Some (tgtSearchNode s1)
                  then ResetQueue (s1\<lparr>haveFullPath := True\<rparr>)
                  else s1\<lparr>haveFullPath := False\<rparr>"
    have fn: "fixedPart ?n = fixedPart s"
      using IterateNodes_fixed [OF it] by (simp add: fixedPart_def ResetQueue_def)
    have inv: "haveFullPath ?n = (curSearchNode ?n = Some (tgtSearchNode ?n))"
      by (simp add: ResetQueue_def)
    from 1(1) [OF rec] have ih:
      "fixedPart s' = fixedPart ?n" "openNodes s' = []"
      "openNodes ?n = [] \<longrightarrow> s' = ?n"
      "openNodes ?n \<noteq> [] \<longrightarrow> haveFullPath s' = (curSearchNode s' = Some (tgtSearchNode s'))"
      by simp_all
    have "haveFullPath s' = (curSearchNode s' = Some (tgtSearchNode s'))"
    proof (cases "openNodes ?n = []")
      case True
      with ih(3) have "s' = ?n" by simp
      with inv show ?thesis by simp
    next
      case False
      with ih(4) show ?thesis by simp
    qed
    with ih(1,2) fn False show ?thesis by simp
  qed
qed

lemma seedSearch_result:
  assumes "seedSearch cfg L s = Some s'"
  shows "openNodes s' \<noteq> [] \<and> srcPoint s' = srcPoint s \<and> tgtPoint s' = tgtPoint s \<and>
         rawPathCheck s' = rawPathCheck s \<and> badGoal s' = badGoal s \<and>
         srcSearchNode s' = srcSearchNode s \<and> tgtSearchNode s' = tgtSearchNode s"
  using assms
  by (auto simp: seedSearch_def ResetState_def UpdateNode_def putNode_def nodeAt_def Let_def
           qPush_Nil split: Option.bind_splits if_splits)

lemma ExecutePathSearch_flags:
  assumes "ExecutePathSearch cfg L s = Some (b, s')"
  shows "havePartPath s' = (minSearchNode s' \<noteq> srcSearchNode s') \<and>
         haveFullPath s' = (curSearchNode s' = Some (tgtSearchNode s)) \<and>
         b = (haveFullPath s' \<or> havePartPath s') \<and>
         badGoal s' = badGoal s \<and> rawPathCheck s' = rawPathCheck s \<and>
         srcSearchNode s' = srcSearchNode s \<and> srcPoint s' = srcPoint s"
proof -
  from assms obtain s2 s3 where
    seed: "seedSearch cfg L s = Some s2" and loop: "searchLoop cfg L s2 = Some s3"
    by (auto simp: ExecutePathSearch_def split: Option.bind_splits)
  note a = seedSearch_result [OF seed]
  note b = searchLoop_result [OF loop]
  from a b have full: "haveFullPath s3 = (curSearchNode s3 = Some (tgtSearchNode s))"
    by (simp add: fixedPart_def)
  from a b have fx: "badGoal s3 = badGoal s" "rawPathCheck s3 = rawPathCheck s"
    "srcSearchNode s3 = srcSearchNode s" "srcPoint s3 = srcPoint s"
    by (simp_all add: fixedPart_def)
  from assms seed loop full fx show ?thesis
    by (auto simp: ExecutePathSearch_def Let_def split: Option.bind_splits if_splits)
qed

lemma Finalize_flags:
  assumes "Finalize cfg L s path = Some path'"
  shows "hasFullPath path' = (haveFullPath s \<and> \<not> badGoal s) \<and>
         hasPartialPath path' = havePartPath s"
  using assms
  by (auto simp: Finalize_def SetHasFullPath_def SetHasPartialPath_def SetBoundingBox_def
           split: Option.bind_splits if_splits)

text \<open>
  Claim C1, as amended. For an executed graph search (raw-probe flag unset, source
  and target nodes distinct) that completes, the two flags are set independently:
  the partial-path flag is true exactly when the recorded minimum-heuristic node
  differs from the source node, whether or not the target was reached; the full-path
  flag of the search is true exactly when the last popped node is the target node,
  and the route reports it unless the goal is degraded. The route's flags can both be
  true.
\<close>

theorem search_outcome_flags:
  assumes "Execute cfg L s = Some (b, s')"
      and "\<not> rawPathCheck s"
      and "srcSearchNode s \<noteq> tgtSearchNode s"
      and "Finalize cfg L s' path = Some path'"
  shows "havePartPath s' = (minSearchNode s' \<noteq> srcSearchNode s') \<and>
         haveFullPath s' = (curSearchNode s' = Some (tgtSearchNode s)) \<and>
         b = (haveFullPath s' \<or> havePartPath s') \<and>
         hasFullPath path' = (haveFullPath s' \<and> \<not> badGoal s) \<and>
         hasPartialPath path' = havePartPath s'"
proof -
  from assms(1-3) have
    "ExecutePathSearch cfg L
       (s\<lparr>haveFullPath := (srcSearchNode s = tgtSearchNode s), havePartPath := False\<rparr>)
     = Some (b, s')"
    by (simp add: Execute_def Let_def)
  from ExecutePathSearch_flags [OF this] Finalize_flags [OF assms(4)]
  show ?thesis by simp
qed

lemma runSearch_SomeD:
  "runSearch cfg L s0 path = Some (s1, b, s2, p) \<Longrightarrow>
     InitializeThread cfg L s0 = Some s1 \<and> Execute cfg L s1 = Some (b, s2) \<and>
     Finalize cfg L s2 path = Some p"
  by (auto simp: runSearch_def split: Option.bind_splits)

text \<open>
  Claim C1 as stated fails: on the row of nodes, the A* search from node 1 to node 3
  reaches the target after expanding node 2, whose heuristic cost is below the
  source's; the route has the full-path and the partial-path flag both true.
\<close>

theorem both_flags_true_counterexample:
  "map_option (\<lambda>(s1, b, s2, p). (rawPathCheck s1, points p, hasFullPath p, hasPartialPath p))
     (runSearch exConfig exRowLayer (exRequest (32, 0, 32) (160, 0, 32)) exFreshPath)
   = Some (False, [(32, 0, 32), (64, 0, 32), (128, 0, 32), (160, 0, 32)], True, True)"
  by code_simp

theorem search_outcome_flags_witness:
  "map_option (\<lambda>(s1, b, s2, p).
       (b, haveFullPath s2, havePartPath s2, minSearchNode s2 \<noteq> srcSearchNode s2,
        curSearchNode s2 = Some (tgtSearchNode s1), hasFullPath p, hasPartialPath p))
     (runSearch exConfig exRowLayer (exRequest (32, 0, 32) (160, 0, 32)) exFreshPath)
   = Some (True, True, True, True, True, True, True)"
proof -
  have "map_option (\<lambda>(s1, b, s2, p).
       (rawPathCheck s1, srcSearchNode s1 = tgtSearchNode s1, badGoal s1,
        haveFullPath s2, havePartPath s2))
     (runSearch exConfig exRowLayer (exRequest (32, 0, 32) (160, 0, 32)) exFreshPath)
   = Some (False, False, False, True, True)"
    by code_simp
  then obtain s1 b s2 p where
    run: "runSearch exConfig exRowLayer (exRequest (32, 0, 32) (160, 0, 32)) exFreshPath
          = Some (s1, b, s2, p)"
    and f: "\<not> rawPathCheck s1" "srcSearchNode s1 \<noteq> tgtSearchNode s1" "\<not> badGoal s1"
       "haveFullPath s2" "havePartPath s2"
    by auto
  from runSearch_SomeD [OF run] have
    ex: "Execute exConfig exRowLayer s1 = Some (b, s2)"
    and fin: "Finalize exConfig exRowLayer s2 exFreshPath = Some p"
    by simp_all
  from search_outcome_flags [OF ex f(1) f(2) fin] f run show ?thesis by simp
qed

subsection \<open>Trace-back\<close>

lemma tl_remdups_adj_Cons:
  "tl (remdups_adj (a # b # xs)) =
     (if a = b then tl (remdups_adj (b # xs)) else b # tl (remdups_adj (b # xs)))"
proof -
  have "remdups_adj (b # xs) = b # tl (remdups_adj (b # xs))"
    by (cases xs) auto
  then show ?thesis by auto
qed

lemma traceLoop_chain:
  assumes "predChain s t ns" and "nodeAt s t = Some r"
  shows "traceLoop s t (prevNode r) prvPoint acc =
           Some (rev (tl (remdups_adj (prvPoint # map (crossingPoint s) ns))) @ acc)"
  using assms
proof (induction ns arbitrary: t r prvPoint acc)
  case Nil
  then show ?case
    by (subst traceLoop.simps) (auto split: option.splits)
next
  case (Cons n ns)
  from Cons.prems obtain p rp where
    n: "n = t" and ne: "t \<noteq> srcSearchNode s" and pr: "prevNode r = Some p"
    and rp: "nodeAt s p = Some rp" and ch: "predChain s p ns"
    by (auto split: option.splits)
  have cp: "crossingPoint s t = xz3 (selectedNetpoint r)"
    using Cons.prems(2) by (simp add: crossingPoint_def)
  have "traceLoop s t (prevNode r) prvPoint acc =
        traceLoop s p (prevNode rp) (crossingPoint s t)
          (if crossingPoint s t \<noteq> prvPoint then crossingPoint s t # acc else acc)"
    by (subst traceLoop.simps) (simp add: pr ne Cons.prems(2) rp cp)
  also have "\<dots> = Some (rev (tl (remdups_adj (crossingPoint s t # map (crossingPoint s) ns)))
        @ (if crossingPoint s t \<noteq> prvPoint then crossingPoint s t # acc else acc))"
    by (rule Cons.IH [OF ch rp])
  also have "\<dots> = Some (rev (tl (remdups_adj (prvPoint # map (crossingPoint s) (n # ns)))) @ acc)"
  proof -
    define T where "T = tl (remdups_adj (crossingPoint s t # map (crossingPoint s) ns))"
    have "tl (remdups_adj (prvPoint # map (crossingPoint s) (n # ns))) =
        (if prvPoint = crossingPoint s t then T else crossingPoint s t # T)"
      unfolding T_def n list.map by (rule tl_remdups_adj_Cons)
    then show ?thesis
      unfolding T_def [symmetric] by (simp del: remdups_adj.simps)
  qed
  finally show ?case .
qed

lemma fillPoints_middle:
  assumes "length ys = length pts"
  shows "fillPoints pts (path\<lparr>points := xs @ ys @ [l]\<rparr>) = Some (path\<lparr>points := xs @ pts @ [l]\<rparr>)"
  using assms
proof (induction pts arbitrary: xs ys)
  case Nil
  then show ?case by simp
next
  case (Cons p pts)
  then obtain y ys' where ys: "ys = y # ys'" and len: "length ys' = length pts"
    by (cases ys) auto
  have "SetPoint (NumPoints (path\<lparr>points := xs @ ys @ [l]\<rparr>) - length (p # pts) - 1) p
          (path\<lparr>points := xs @ ys @ [l]\<rparr>) = Some (path\<lparr>points := (xs @ [p]) @ ys' @ [l]\<rparr>)"
    by (simp add: SetPoint_def NumPoints_def ys len list_update_append)
  moreover have "fillPoints pts (path\<lparr>points := (xs @ [p]) @ ys' @ [l]\<rparr>) =
      Some (path\<lparr>points := (xs @ [p]) @ pts @ [l]\<rparr>)"
    by (rule Cons.IH [OF len])
  ultimately show ?case by simp
qed

text \<open>
  Claim C8, as amended. When the predecessor links from the target node lead through
  the nodes \<open>ns\<close> to the source node (or to a node without predecessor),
  \<^verbatim>\<open>TracePath\<close> returns, and the route's points are the literal source point, then
  the crossing points of \<open>ns\<close> in source-to-target order, then the literal target
  point. A crossing point equal to the point before it in the walk is left out, where
  the point before the first crossing point is the literal target point: a first
  crossing point that coincides with the literal target is left out as well. (When
  nothing is collected the code relies on the route having its two points already.)
\<close>

theorem TracePath_waypoints:
  assumes "predChain s (tgtSearchNode s) ns"
      and "tl (remdups_adj (tgtPoint s # map (crossingPoint s) ns)) = [] \<longrightarrow> NumPoints path = 2"
  shows "TracePath s path =
           Some (path\<lparr>points := srcPoint s #
                   rev (tl (remdups_adj (tgtPoint s # map (crossingPoint s) ns))) @ [tgtPoint s]\<rparr>)"
proof -
  define c where "c = rev (tl (remdups_adj (tgtPoint s # map (crossingPoint s) ns)))"
  have walk: "(if srcSearchNode s \<noteq> tgtSearchNode s then do {
                t \<leftarrow> nodeAt s (tgtSearchNode s);
                traceLoop s (tgtSearchNode s) (prevNode t) (tgtPoint s) []
              } else Some []) = Some c"
  proof (cases "srcSearchNode s = tgtSearchNode s")
    case True
    with assms(1) have "ns = []" by (cases ns) auto
    with True show ?thesis by (simp add: c_def)
  next
    case False
    with assms(1) obtain r where r: "nodeAt s (tgtSearchNode s) = Some r"
      by (cases ns) (auto split: option.splits)
    from traceLoop_chain [OF assms(1) r, of "tgtPoint s" "[]"] False r
    show ?thesis by (simp add: c_def)
  qed
  have "TracePath s path = Some (path\<lparr>points := srcPoint s # c @ [tgtPoint s]\<rparr>)"
  proof (cases "c = []")
    case True
    with assms(2) have "length (points path) = 2" by (simp add: NumPoints_def c_def)
    then obtain a b where ab: "points path = [a, b]"
      by (cases "points path"; cases "tl (points path)") auto
    show ?thesis
      unfolding TracePath_def walk
      using True ab
      by (simp add: SetSourcePoint_def SetTargetPoint_def SetPoint_def)
  next
    case False
    have al: "AllocPoints (length c + 2) path
        = path\<lparr>points := [(0, 0, 0)] @ replicate (length c) (0, 0, 0) @ [(0, 0, 0)]\<rparr>"
      by (simp add: AllocPoints_def replicate_append_same)
    have fill: "fillPoints c (AllocPoints (length c + 2) path)
        = Some (path\<lparr>points := [(0, 0, 0)] @ c @ [(0, 0, 0)]\<rparr>)"
      unfolding al by (rule fillPoints_middle) simp
    show ?thesis
      unfolding TracePath_def walk
      using False fill
      by (simp add: SetSourcePoint_def SetTargetPoint_def SetPoint_def Let_def
            list_update_append nth_append)
  qed
  then show ?thesis by (simp only: c_def)
qed

theorem TracePath_waypoints_witness:
  "map_option (\<lambda>s. (predChain s (tgtSearchNode s) [2, 3], map (crossingPoint s) [2, 3],
                     srcPoint s, tgtPoint s, TracePath s exFreshPath))
     (runExecute exConfig exRowLayer (exRequest (32, 0, 32) (160, 0, 32)))
   = Some (True, [(128, 0, 32), (64, 0, 32)], (32, 0, 32), (160, 0, 32),
           Some (exFreshPath\<lparr>points := [(32, 0, 32), (64, 0, 32), (128, 0, 32), (160, 0, 32)]\<rparr>))"
proof -
  have "map_option (\<lambda>s. (predChain s (tgtSearchNode s) [2, 3], map (crossingPoint s) [2, 3],
                     srcPoint s, tgtPoint s))
     (runExecute exConfig exRowLayer (exRequest (32, 0, 32) (160, 0, 32)))
   = Some (True, [(128, 0, 32), (64, 0, 32)], (32, 0, 32), (160, 0, 32))"
    by code_simp
  then obtain s where
    run: "runExecute exConfig exRowLayer (exRequest (32, 0, 32) (160, 0, 32)) = Some s"
    and ch: "predChain s (tgtSearchNode s) [2, 3]"
    and cp: "map (crossingPoint s) [2, 3] = [(128, 0, 32), (64, 0, 32)]"
    and pt: "srcPoint s = (32, 0, 32)" "tgtPoint s = (160, 0, 32)"
    by auto
  have ne: "tl (remdups_adj (tgtPoint s # map (crossingPoint s) [2, 3])) = []
      \<longrightarrow> NumPoints exFreshPath = 2"
    by (simp add: NumPoints_def exFreshPath_def)
  from TracePath_waypoints [OF ch ne]
  have "TracePath s exFreshPath =
     Some (exFreshPath\<lparr>points := (32, 0, 32) #
        rev (tl (remdups_adj ((160, 0, 32) # [(128, 0, 32), (64, 0, 32)]))) @ [(160, 0, 32)]\<rparr>)"
    unfolding cp pt .
  then have tp: "TracePath s exFreshPath =
     Some (exFreshPath\<lparr>points := [(32, 0, 32), (64, 0, 32), (128, 0, 32), (160, 0, 32)]\<rparr>)"
    by simp
  show ?thesis
    unfolding run option.map tp cp pt eqTrueI [OF ch] by (rule refl)
qed

text \<open>
  Claim C8 as stated fails: it exempts the first collected point from the skipping
  when it coincides with the literal target, so that the interior points would be all
  crossing points of the walk. On the row of nodes, the search from (32, 0, 32) to
  (128, 0, 32), a point on the edge between node 2 and node 3, ends with the walk
  over the crossing points (128, 0, 32) and (64, 0, 32); the first of them is the
  literal target, and \<^verbatim>\<open>TracePath\<close> leaves it out: the route has three waypoints,
  not four.
\<close>

theorem first_crossing_point_skipped_counterexample:
  "runExecute exConfig exRowLayer (exRequest (32, 0, 32) (128, 0, 32)) = Some exTraceState \<and>
   predChain exTraceState (tgtSearchNode exTraceState) [2, 3] \<and>
   map (crossingPoint exTraceState) [2, 3] = [(128, 0, 32), (64, 0, 32)] \<and>
   tgtPoint exTraceState = (128, 0, 32) \<and>
   map_option points (TracePath exTraceState exFreshPath)
     = Some [(32, 0, 32), (64, 0, 32), (128, 0, 32)]"
  by code_simp

subsection \<open>Degraded goals and the trivial path\<close>

lemma InitializeThread_result:
  assumes "InitializeThread cfg L s0 = Some s1"
  shows "badGoal s1 =
           (let tgtNode = GetNode L (nat (toSquare cfg (fst (tgtPoint s0))))
                                    (nat (toSquare cfg (snd (snd (tgtPoint s0)))))
            in AllSquaresImpassable tgtNode \<and>
               GetNearestNodeInArea L
                 (max (sint (xmin tgtNode) - 16) 0, max (sint (zmin tgtNode) - 16) 0,
                  min (sint (xmax tgtNode) + 16) (sint (mapx cfg)),
                  min (sint (zmax tgtNode) + 16) (sint (mapy cfg)))
                 (toSquare cfg (fst (tgtPoint s0)), toSquare cfg (snd (snd (tgtPoint s0))))
               \<noteq> None)"
  using assms
  by (auto simp: InitializeThread_def Let_def Init_def ResetQueue_def
           split: Option.bind_splits if_splits option.splits)

lemma Execute_keeps:
  assumes "Execute cfg L s = Some (b, s')"
  shows "badGoal s' = badGoal s \<and> rawPathCheck s' = rawPathCheck s \<and>
         srcSearchNode s' = srcSearchNode s \<and> srcPoint s' = srcPoint s"
proof (cases "srcSearchNode s = tgtSearchNode s \<or> rawPathCheck s")
  case True
  with assms show ?thesis
    by (auto simp: Execute_def ExecuteRawSearch_def Let_def split: if_splits)
next
  case False
  with assms have
    "ExecutePathSearch cfg L
       (s\<lparr>haveFullPath := (srcSearchNode s = tgtSearchNode s), havePartPath := False\<rparr>)
     = Some (b, s')"
    by (simp add: Execute_def Let_def)
  from ExecutePathSearch_flags [OF this] show ?thesis by simp
qed

text \<open>
  Claim C10. \<^verbatim>\<open>InitializeThread\<close> flags a degraded goal exactly when the literal
  target's node is fully impassable and the lookup of a nearby node yields one, which
  then replaces the target node. For a search bound, executed and finalized, the
  route's full-path flag is the search's full-path flag masked by the degraded goal,
  so it is false for every degraded goal, also when the main loop reached the
  substituted target; the route's partial-path flag is the search's, whatever the
  goal.
\<close>

theorem degraded_goal_not_full:
  assumes "InitializeThread cfg L s0 = Some s1"
      and "Execute cfg L s1 = Some (b, s2)"
      and "Finalize cfg L s2 path = Some path'"
  shows "badGoal s1 =
           (let tgtNode = GetNode L (nat (toSquare cfg (fst (tgtPoint s0))))
                                    (nat (toSquare cfg (snd (snd (tgtPoint s0)))))
            in AllSquaresImpassable tgtNode \<and>
               GetNearestNodeInArea L
                 (max (sint (xmin tgtNode) - 16) 0, max (sint (zmin tgtNode) - 16) 0,
                  min (sint (xmax tgtNode) + 16) (sint (mapx cfg)),
                  min (sint (zmax tgtNode) + 16) (sint (mapy cfg)))
                 (toSquare cfg (fst (tgtPoint s0)), toSquare cfg (snd (snd (tgtPoint s0))))
               \<noteq> None) \<and>
         hasFullPath path' = (haveFullPath s2 \<and> \<not> badGoal s1) \<and>
         (badGoal s1 \<longrightarrow> \<not> hasFullPath path') \<and>
         hasPartialPath path' = havePartPath s2"
  using InitializeThread_result [OF assms(1)] Execute_keeps [OF assms(2)]
    Finalize_flags [OF assms(3)]
  by simp

theorem degraded_goal_not_full_witness:
  "map_option (\<lambda>(s1, b, s2, p).
       (badGoal s1, tgtSearchNode s1, curSearchNode s2, haveFullPath s2, havePartPath s2,
        hasFullPath p, hasPartialPath p))
     (runSearch exConfig exRowLayer (exRequest (32, 0, 32) (224, 0, 32)) exFreshPath)
   = Some (True, 2, Some 2, True, True, False, True)"
proof -
  have "map_option (\<lambda>(s1, b, s2, p).
       (badGoal s1, tgtSearchNode s1, curSearchNode s2, haveFullPath s2, havePartPath s2))
     (runSearch exConfig exRowLayer (exRequest (32, 0, 32) (224, 0, 32)) exFreshPath)
   = Some (True, 2, Some 2, True, True)"
    by code_simp
  then obtain s1 b s2 p where
    run: "runSearch exConfig exRowLayer (exRequest (32, 0, 32) (224, 0, 32)) exFreshPath
          = Some (s1, b, s2, p)"
    and f: "badGoal s1" "tgtSearchNode s1 = 2" "curSearchNode s2 = Some 2"
       "haveFullPath s2" "havePartPath s2"
    by auto
  from runSearch_SomeD [OF run] have
    i: "InitializeThread exConfig exRowLayer (exRequest (32, 0, 32) (224, 0, 32)) = Some s1"
    and ex: "Execute exConfig exRowLayer s1 = Some (b, s2)"
    and fin: "Finalize exConfig exRowLayer s2 exFreshPath = Some p"
    by simp_all
  from degraded_goal_not_full [OF i ex fin] have
    "hasFullPath p = (haveFullPath s2 \<and> \<not> badGoal s1)" "hasPartialPath p = havePartPath s2"
    by simp_all
  with f run show ?thesis by simp
qed

text \<open>
  Claim C4, as amended. When the source node is the target node, \<^verbatim>\<open>Execute\<close>
  returns true at once, setting the two flags and nothing else (the open list and
  the registry are as they were: the main loop is not entered). \<^verbatim>\<open>Finalize\<close> of a
  two-point route then yields, with the raw-probe flag unset, exactly the two
  waypoints literal source and literal target; with the raw-probe flag set it leaves
  the route's two points as the caller passed them. The route's full-path flag is
  true exactly when the goal is not degraded, and its partial-path flag is false.
\<close>

theorem trivial_path:
  assumes "srcSearchNode s = tgtSearchNode s" and "points path = [a, b]"
  shows "Execute cfg L s = Some (True, s\<lparr>haveFullPath := True, havePartPath := False\<rparr>) \<and>
         Finalize cfg L (s\<lparr>haveFullPath := True, havePartPath := False\<rparr>) path =
           Some (SetHasPartialPath False (SetHasFullPath (\<not> badGoal s)
             (SetBoundingBox cfg
               (path\<lparr>points := (if rawPathCheck s then [a, b] else [srcPoint s, tgtPoint s])\<rparr>))))"
proof -
  have e: "Execute cfg L s = Some (True, s\<lparr>haveFullPath := True, havePartPath := False\<rparr>)"
    using assms(1) by (simp add: Execute_def Let_def)
  have t: "TracePath (s\<lparr>haveFullPath := True, havePartPath := False\<rparr>) path =
      Some (path\<lparr>points := [srcPoint s, tgtPoint s]\<rparr>)"
    using assms by (simp add: TracePath_def SetSourcePoint_def SetTargetPoint_def SetPoint_def)
  have f: "Finalize cfg L (s\<lparr>haveFullPath := True, havePartPath := False\<rparr>) path =
           Some (SetHasPartialPath False (SetHasFullPath (\<not> badGoal s)
             (SetBoundingBox cfg
               (path\<lparr>points := (if rawPathCheck s then [a, b] else [srcPoint s, tgtPoint s])\<rparr>))))"
  proof (cases "rawPathCheck s")
    case True
    have "path\<lparr>points := [a, b]\<rparr> = path" using assms(2) by simp
    with True show ?thesis by (simp add: Finalize_def)
  next
    case False
    then show ?thesis by (simp add: Finalize_def t SmoothPath_def NumPoints_def)
  qed
  from e f show ?thesis by simp
qed

text \<open>
  Claim C4 as stated fails twice. A request from node 3 to a point of the impassable
  node 4 gets node 3 as substituted target: source and target node are equal, the
  goal is degraded, and the route's full-path flag is false. A raw-probe request
  inside node 1 keeps the two points the route came with, not the literal ones.
\<close>

theorem trivial_path_counterexample:
  "map_option (\<lambda>(s1, b, s2, p).
       (srcSearchNode s1 = tgtSearchNode s1, b, haveFullPath s2, points p, hasFullPath p))
     (runSearch exConfig exRowLayer (exRequest (150, 0, 32) (224, 0, 32)) exFreshPath)
   = Some (True, True, True, [(150, 0, 32), (224, 0, 32)], False) \<and>
   map_option (\<lambda>(s1, b, s2, p).
       (srcSearchNode s1 = tgtSearchNode s1, b, haveFullPath s2, points p, hasFullPath p))
     (runSearch exConfig exRowLayer ((exRequest (32, 0, 32) (40, 0, 32))\<lparr>rawPathCheck := True\<rparr>)
        exFreshPath)
   = Some (True, True, True, [(0, 0, 0), (0, 0, 0)], True)"
  by code_simp

theorem trivial_path_witness:
  "map_option (\<lambda>(s1, b, s2, p).
       (srcSearchNode s1 = tgtSearchNode s1, b, openNodes s2, points p, hasFullPath p,
        hasPartialPath p))
     (runSearch exConfig exRowLayer (exRequest (32, 0, 32) (40, 0, 32)) exFreshPath)
   = Some (True, True, [], [(32, 0, 32), (40, 0, 32)], True, False)"
proof -
  have "map_option (\<lambda>(s1, b, s2, p).
       (srcSearchNode s1 = tgtSearchNode s1, rawPathCheck s1, badGoal s1, openNodes s1,
        srcPoint s1, tgtPoint s1))
     (runSearch exConfig exRowLayer (exRequest (32, 0, 32) (40, 0, 32)) exFreshPath)
   = Some (True, False, False, [], (32, 0, 32), (40, 0, 32))"
    by code_simp
  then obtain s1 b s2 p where
    run: "runSearch exConfig exRowLayer (exRequest (32, 0, 32) (40, 0, 32)) exFreshPath
          = Some (s1, b, s2, p)"
    and f: "srcSearchNode s1 = tgtSearchNode s1" "\<not> rawPathCheck s1" "\<not> badGoal s1"
       "openNodes s1 = []" "srcPoint s1 = (32, 0, 32)" "tgtPoint s1 = (40, 0, 32)"
    by auto
  have pts: "points exFreshPath = [(0, 0, 0), (0, 0, 0)]" by (simp add: exFreshPath_def)
  from runSearch_SomeD [OF run] have
    ex: "Execute exConfig exRowLayer s1 = Some (b, s2)"
    and fin: "Finalize exConfig exRowLayer s2 exFreshPath = Some p"
    by simp_all
  from trivial_path [OF f(1) pts, of exConfig exRowLayer] ex
  have b: "b" and s2: "s2 = s1\<lparr>haveFullPath := True, havePartPath := False\<rparr>"
    and "Finalize exConfig exRowLayer s2 exFreshPath =
           Some (SetHasPartialPath False (SetHasFullPath (\<not> badGoal s1)
             (SetBoundingBox exConfig
               (exFreshPath\<lparr>points := (if rawPathCheck s1 then [(0, 0, 0), (0, 0, 0)]
                  else [srcPoint s1, tgtPoint s1])\<rparr>))))"
    by simp_all
  with fin f have p: "points p = [(32, 0, 32), (40, 0, 32)]" "hasFullPath p" "\<not> hasPartialPath p"
    by (auto simp: SetHasPartialPath_def SetHasFullPath_def SetBoundingBox_def)
  from run f b s2 p show ?thesis by simp
qed

subsection \<open>Relaxation and stale entries\<close>












text \<open>
  Claim C3, as amended. A popped entry whose recorded priority is strictly above the
  current priority of its node is discarded: \<^verbatim>\<open>IterateNodes\<close> only pops it and sets
  the current node, without expanding neighbors and without touching any search
  record, and (for a node other than the target, whose pop ends the search) the main
  loop goes on with the remaining entries.
\<close>

theorem stale_entry_discarded:
  assumes "openNodes s \<noteq> []"
      and "qTop (openNodes s) = (idx, p)"
      and "slotOf (allSearchedNodes s) idx = Some cur"
      and "nodeAt s cur = Some c"
      and "GetHeapPriority c < p"
  shows "IterateNodes cfg L s =
           Some (s\<lparr>curSearchNode := Some cur, openNodes := qPop (openNodes s)\<rparr>) \<and>
         (cur \<noteq> tgtSearchNode s \<longrightarrow>
            searchLoop cfg L s =
              searchLoop cfg L (s\<lparr>curSearchNode := Some cur, openNodes := qPop (openNodes s),
                                  haveFullPath := False\<rparr>))"
proof -
  have it: "IterateNodes cfg L s =
      Some (s\<lparr>curSearchNode := Some cur, openNodes := qPop (openNodes s)\<rparr>)"
  proof -
    have na: "nodeAt (s\<lparr>curSearchNode := Some cur, openNodes := qPop (openNodes s)\<rparr>) cur = Some c"
      using assms(4) by (simp add: nodeAt_def split: if_splits)
    show ?thesis
      using assms(1,2,3,5) by (simp add: IterateNodes_def Let_def na)
  qed
  have "searchLoop cfg L s =
      searchLoop cfg L (s\<lparr>curSearchNode := Some cur, openNodes := qPop (openNodes s),
                          haveFullPath := False\<rparr>)"
    if "cur \<noteq> tgtSearchNode s"
    by (subst searchLoop.simps) (simp add: assms(1) it that)
  with it show ?thesis by simp
qed

text \<open>
  Claim C3 as stated fails: the seed entry of an A* search has priority 0, while the
  source's record has priority g + h = 128. The entry does not match, yet popping it
  expands the source: the neighbor's record is created and its entry pushed.
\<close>

theorem mismatched_entry_expanded_counterexample:
  "map_option (\<lambda>s. (openNodes s, slotOf (allSearchedNodes s) 1, tgtSearchNode s,
       map_option GetHeapPriority (nodeAt s 1), nodeAt s 3,
       map_option (\<lambda>s'. (openNodes s', nodeAt s' 3)) (IterateNodes exConfig exRowLayer s)))
     exSeeded
   = Some ([(1, 0)], Some 1, 2, Some 128, None,
           Some ([(2, 128)],
                 Some \<lparr>index = 2, prevNode = Some 1, fCost = 128, gCost = 32, hCost = 96,
                       selectedNetpoint = (64, 32)\<rparr>))"
  by code_simp

theorem stale_entry_discarded_witness:
  "exStalePop = Some exStaleState \<and>
   qTop (openNodes exStaleState) = (3, 100) \<and>
   slotOf (allSearchedNodes exStaleState) 3 = Some 3 \<and>
   map_option GetHeapPriority (nodeAt exStaleState 3) = Some 20 \<and>
   IterateNodes exConfig exDetourLayer exStaleState =
     Some (exStaleState\<lparr>curSearchNode := Some 3, openNodes := [(4, 200)]\<rparr>) \<and>
   searchLoop exConfig exDetourLayer exStaleState =
     Some (exStaleState\<lparr>curSearchNode := Some 2, openNodes := [], haveFullPath := True\<rparr>)"
proof -
  have run: "exStalePop = Some exStaleState" by code_simp
  have q: "openNodes exStaleState \<noteq> []" "qTop (openNodes exStaleState) = (3, 100)"
    "qPop (openNodes exStaleState) = [(4, 200)]"
    by code_simp+
  have sl: "slotOf (allSearchedNodes exStaleState) 3 = Some 3" by code_simp
  have nd: "nodeAt exStaleState 3 =
      Some \<lparr>index = 3, prevNode = Some 4, fCost = 20, gCost = 20, hCost = 0,
            selectedNetpoint = (20, 0)\<rparr>"
    by code_simp
  have pr: "GetHeapPriority \<lparr>index = 3, prevNode = Some 4, fCost = 20, gCost = 20, hCost = 0,
            selectedNetpoint = (20, 0)\<rparr> < 100"
    by (simp add: GetHeapPriority_def)
  have tg: "3 \<noteq> tgtSearchNode exStaleState" by code_simp
  have e: "searchLoop exConfig exDetourLayer
      (exStaleState\<lparr>curSearchNode := Some 3, openNodes := [(4, 200)], haveFullPath := False\<rparr>) =
      Some (exStaleState\<lparr>curSearchNode := Some 2, openNodes := [], haveFullPath := True\<rparr>)"
    by code_simp
  from stale_entry_discarded [OF q(1) q(2) sl nd pr, of exConfig exDetourLayer] tg
  have "IterateNodes exConfig exDetourLayer exStaleState =
     Some (exStaleState\<lparr>curSearchNode := Some 3, openNodes := [(4, 200)]\<rparr>)"
    "searchLoop exConfig exDetourLayer exStaleState =
     searchLoop exConfig exDetourLayer
       (exStaleState\<lparr>curSearchNode := Some 3, openNodes := [(4, 200)], haveFullPath := False\<rparr>)"
    by (simp_all add: q(3))
  with e run q(2) sl nd show ?thesis by (simp add: GetHeapPriority_def)
qed

subsection \<open>Shared-route reuse\<close>

text \<open>
  Claim C9: what \<^verbatim>\<open>SharedFinalize\<close> does. The destination gets the cached
  points with the first and last overwritten, the recomputed bounding box and the
  cached full-path flag, and keeps everything else, its own partial-path flag
  included: the cached partial-path flag goes to the search's \<^verbatim>\<open>havePartPath\<close> only.
  Reusing a cached partial route gives a route whose partial-path flag is false.
\<close>

theorem SharedFinalize_partial_flag_not_copied:
  "SharedFinalize cfg s srcPath dstPath =
     (if points srcPath = [] then None
      else Some (s\<lparr>haveFullPath := hasFullPath srcPath, havePartPath := hasPartialPath srcPath\<rparr>,
                 dstPath\<lparr>points := ((points srcPath)[0 := srcPoint s])
                                      [length (points srcPath) - 1 := tgtPoint s],
                   boundingBoxMins := fst (boundingBox cfg
                      (((points srcPath)[0 := srcPoint s])[length (points srcPath) - 1 := tgtPoint s])),
                   boundingBoxMaxs := snd (boundingBox cfg
                      (((points srcPath)[0 := srcPoint s])[length (points srcPath) - 1 := tgtPoint s])),
                   hasFullPath := hasFullPath srcPath\<rparr>)) \<and>
   hasPartialPath exCachedPath \<and> \<not> hasPartialPath exFreshPath \<and>
   map_option (\<lambda>(s', d). (havePartPath s', points d, hasFullPath d, hasPartialPath d))
     (SharedFinalize exConfig (exRequest (32, 0, 32) (160, 0, 32)) exCachedPath exFreshPath)
   = Some (True, [(32, 0, 32), (64, 0, 32), (160, 0, 32)], False, False)"
proof -
  have g: "SharedFinalize cfg s srcPath dstPath =
     (if points srcPath = [] then None
      else Some (s\<lparr>haveFullPath := hasFullPath srcPath, havePartPath := hasPartialPath srcPath\<rparr>,
                 dstPath\<lparr>points := ((points srcPath)[0 := srcPoint s])
                                      [length (points srcPath) - 1 := tgtPoint s],
                   boundingBoxMins := fst (boundingBox cfg
                      (((points srcPath)[0 := srcPoint s])[length (points srcPath) - 1 := tgtPoint s])),
                   boundingBoxMaxs := snd (boundingBox cfg
                      (((points srcPath)[0 := srcPoint s])[length (points srcPath) - 1 := tgtPoint s])),
                   hasFullPath := hasFullPath srcPath\<rparr>))"
    by (simp add: SharedFinalize_def CopyPoints_def SetSourcePoint_def SetTargetPoint_def
          SetPoint_def SetBoundingBox_def SetHasFullPath_def Let_def)
  have c: "hasPartialPath exCachedPath \<and> \<not> hasPartialPath exFreshPath \<and>
   map_option (\<lambda>(s', d). (havePartPath s', points d, hasFullPath d, hasPartialPath d))
     (SharedFinalize exConfig (exRequest (32, 0, 32) (160, 0, 32)) exCachedPath exFreshPath)
   = Some (True, [(32, 0, 32), (64, 0, 32), (160, 0, 32)], False, False)"
    by code_simp
  from g c show ?thesis by (rule conjI)
qed

end
